theory Spec2Isabelle
  imports Complex_Main
begin

section \<open>JavaScript numbers\<close>

text \<open>
  Every counter and every derived metric of the dashboard is a JavaScript \<open>number\<close>, an
  IEEE-754 binary64 value. A finite double is modelled by the rational it denotes, next to
  the three special values. The two zeros \<open>+0\<close> and \<open>-0\<close> are one value \<open>Fin 0\<close>: the
  program never tells them apart (\<open>=== 0\<close> holds of both, and no division by a zero is ever
  carried out by the metric functions).
\<close>

datatype jsnum = Fin rat | PInf | NInf | NaN

text \<open>Number of binary digits of a positive integer.\<close>

function bitLength :: "int \<Rightarrow> int" where
  "bitLength n = (if n \<le> 0 then 0 else 1 + bitLength (n div 2))"
  by pat_completeness auto
termination
  by (relation "measure nat") auto

declare bitLength.simps [simp del]

definition pow2 :: "int \<Rightarrow> rat" where
  "pow2 e = (if 0 \<le> e then 2 ^ nat e else 1 / 2 ^ nat (- e))"

text \<open>The exponent \<open>e\<close> with \<open>2 ^ e \<le> a < 2 ^ (e + 1)\<close>, for a positive rational \<open>a\<close>.\<close>

definition binaryExponent :: "rat \<Rightarrow> int" where
  "binaryExponent a =
     (if 1 \<le> a then bitLength \<lfloor>a\<rfloor> - 1
      else - bitLength (\<lceil>1 / a\<rceil> - 1))"

definition roundTiesToEven :: "rat \<Rightarrow> int" where
  "roundTiesToEven x =
     (let f = \<lfloor>x\<rfloor>; r = x - of_int f
      in if r < 1 / 2 then f else if 1 / 2 < r then f + 1 else if even f then f else f + 1)"

text \<open>
  Rounding of an exact result to the nearest double (ties to even): 53 significant bits,
  exponents from \<open>-1022\<close> (below that the spacing stays \<open>2 ^ -1074\<close>, the subnormal range)
  to \<open>1023\<close>, overflow to an infinity.
\<close>

definition round64 :: "rat \<Rightarrow> jsnum" where
  "round64 q =
     (if q = 0 then Fin 0
      else let a = \<bar>q\<bar>;
               e = max (binaryExponent a) (- 1022);
               m = roundTiesToEven (a / pow2 (e - 52))
           in if 1023 < e \<or> (e = 1023 \<and> m = 2 ^ 53) then (if 0 < q then PInf else NInf)
              else Fin (if 0 < q then of_int m * pow2 (e - 52) else - (of_int m * pow2 (e - 52))))"

text \<open>The operators \<open>/\<close> and \<open>*\<close> on numbers.\<close>

fun js_div :: "jsnum \<Rightarrow> jsnum \<Rightarrow> jsnum" where
  "js_div NaN y = NaN"
| "js_div x NaN = NaN"
| "js_div (Fin a) (Fin b) =
     (if b = 0 then (if a = 0 then NaN else if 0 < a then PInf else NInf)
      else round64 (a / b))"
| "js_div (Fin a) PInf = Fin 0"
| "js_div (Fin a) NInf = Fin 0"
| "js_div PInf (Fin b) = (if 0 \<le> b then PInf else NInf)"
| "js_div NInf (Fin b) = (if 0 \<le> b then NInf else PInf)"
| "js_div PInf PInf = NaN"
| "js_div PInf NInf = NaN"
| "js_div NInf PInf = NaN"
| "js_div NInf NInf = NaN"

fun js_mul :: "jsnum \<Rightarrow> jsnum \<Rightarrow> jsnum" where
  "js_mul NaN y = NaN"
| "js_mul x NaN = NaN"
| "js_mul (Fin a) (Fin b) = round64 (a * b)"
| "js_mul (Fin a) PInf = (if a = 0 then NaN else if 0 < a then PInf else NInf)"
| "js_mul (Fin a) NInf = (if a = 0 then NaN else if 0 < a then NInf else PInf)"
| "js_mul PInf (Fin b) = (if b = 0 then NaN else if 0 < b then PInf else NInf)"
| "js_mul NInf (Fin b) = (if b = 0 then NaN else if 0 < b then NInf else PInf)"
| "js_mul PInf PInf = PInf"
| "js_mul PInf NInf = NInf"
| "js_mul NInf PInf = NInf"
| "js_mul NInf NInf = PInf"

text \<open>The global \<open>isNaN\<close>, applied to a number.\<close>

definition isNaN :: "jsnum \<Rightarrow> bool" where
  "isNaN x = (x = NaN)"

section \<open>The metric deriver\<close>

text \<open>
  \<open>RawMarketingDataEntry\<close> and \<open>CalculatedMetrics\<close> are the interfaces of the same names.
  The field \<open>date\<close> holds a calendar day \<open>YYYY-MM-DD\<close>, identified with the number of days
  from 1970-01-01 to it (see the section on dates).
\<close>

record RawMarketingDataEntry =
  date :: int
  fbClicks :: jsnum
  fbImpr :: jsnum
  fbCost :: jsnum
  fbConv :: jsnum
  ttClicks :: jsnum
  ttImpr :: jsnum
  ttCost :: jsnum
  ttConv :: jsnum

record CalculatedMetrics =
  fbCtr :: jsnum
  fbCpm :: jsnum
  fbCpc :: jsnum
  fbCpa :: jsnum
  fbCvr :: jsnum
  ttCtr :: jsnum
  ttCpm :: jsnum
  ttCpc :: jsnum
  ttCpa :: jsnum
  ttCvr :: jsnum

text \<open>
  \<open>calculateMetric\<close> of the data endpoint (\<open>api/get-live-data.js\<close>, the second file kept
  in \<open>src/api/ask-gemini.js\<close>). Its third parameter has the default \<open>1\<close>; the calls that
  leave it out pass \<open>Fin 1\<close> here.
\<close>

definition calculateMetric :: "jsnum \<Rightarrow> jsnum \<Rightarrow> jsnum \<Rightarrow> jsnum" where
  "calculateMetric numerator denominator multiplier =
     (if denominator = Fin 0 \<or> isNaN numerator \<or> isNaN denominator then Fin 0
      else js_mul (js_div numerator denominator) multiplier)"

definition calculateAllDerivedMetrics :: "RawMarketingDataEntry \<Rightarrow> CalculatedMetrics" where
  "calculateAllDerivedMetrics baseEntry =
     \<lparr> fbCtr = calculateMetric (fbClicks baseEntry) (fbImpr baseEntry) (Fin 100),
       fbCpm = calculateMetric (fbCost baseEntry) (fbImpr baseEntry) (Fin 1000),
       fbCpc = calculateMetric (fbCost baseEntry) (fbClicks baseEntry) (Fin 1),
       fbCpa = calculateMetric (fbCost baseEntry) (fbConv baseEntry) (Fin 1),
       fbCvr = calculateMetric (fbConv baseEntry) (fbClicks baseEntry) (Fin 100),
       ttCtr = calculateMetric (ttClicks baseEntry) (ttImpr baseEntry) (Fin 100),
       ttCpm = calculateMetric (ttCost baseEntry) (ttImpr baseEntry) (Fin 1000),
       ttCpc = calculateMetric (ttCost baseEntry) (ttClicks baseEntry) (Fin 1),
       ttCpa = calculateMetric (ttCost baseEntry) (ttConv baseEntry) (Fin 1),
       ttCvr = calculateMetric (ttConv baseEntry) (ttClicks baseEntry) (Fin 100) \<rparr>"

text \<open>
  \<open>calculateMetric\<close> and \<open>calculateAllMetrics\<close> of the frontend
  (\<open>utils/dataCalculations.ts\<close>).
\<close>

definition calculateMetric_ts :: "jsnum \<Rightarrow> jsnum \<Rightarrow> jsnum \<Rightarrow> jsnum" where
  "calculateMetric_ts numerator denominator multiplier =
     (if denominator = Fin 0 then Fin 0
      else js_mul (js_div numerator denominator) multiplier)"

definition calculateAllMetrics :: "RawMarketingDataEntry \<Rightarrow> CalculatedMetrics" where
  "calculateAllMetrics entry =
     \<lparr> fbCtr = calculateMetric_ts (fbClicks entry) (fbImpr entry) (Fin 100),
       fbCpm = calculateMetric_ts (fbCost entry) (fbImpr entry) (Fin 1000),
       fbCpc = calculateMetric_ts (fbCost entry) (fbClicks entry) (Fin 1),
       fbCpa = calculateMetric_ts (fbCost entry) (fbConv entry) (Fin 1),
       fbCvr = calculateMetric_ts (fbConv entry) (fbClicks entry) (Fin 100),
       ttCtr = calculateMetric_ts (ttClicks entry) (ttImpr entry) (Fin 100),
       ttCpm = calculateMetric_ts (ttCost entry) (ttImpr entry) (Fin 1000),
       ttCpc = calculateMetric_ts (ttCost entry) (ttClicks entry) (Fin 1),
       ttCpa = calculateMetric_ts (ttCost entry) (ttConv entry) (Fin 1),
       ttCvr = calculateMetric_ts (ttConv entry) (ttClicks entry) (Fin 100) \<rparr>"

text \<open>The entry of the specification's worked example, the same counters on both platforms.\<close>

definition exampleEntry :: RawMarketingDataEntry where
  "exampleEntry =
     \<lparr> date = 19723,
       fbClicks = Fin 50, fbImpr = Fin 1000, fbCost = Fin 25, fbConv = Fin 5,
       ttClicks = Fin 50, ttImpr = Fin 1000, ttCost = Fin 25, ttConv = Fin 5 \<rparr>"

section \<open>Dates and the process time zone\<close>

text \<open>
  A \<open>Date\<close> is its time value, the milliseconds since 1970-01-01T00:00:00Z. A calendar day
  \<open>YYYY-MM-DD\<close> is identified with its day number, the days from 1970-01-01 to it: the ISO
  text of a day and its day number determine each other, and the order of the day numbers is
  the order of the days. Dates stay inside the range JavaScript can represent, so no time
  value is clipped to an invalid date.
\<close>

definition msPerDay :: int where
  "msPerDay = 86400000"

text \<open>
  \<open>formatDate(date)\<close> is \<open>date.toISOString().split('T')[0]\<close>: the UTC day of the time
  value. \<open>new Date(str + 'T00:00:00Z')\<close> and \<open>new Date(str)\<close> of a date-only text are both
  the UTC midnight of the day.
\<close>

definition formatDate :: "int \<Rightarrow> int" where
  "formatDate d = d div msPerDay"

definition utcMidnight :: "int \<Rightarrow> int" where
  "utcMidnight dateStr = dateStr * msPerDay"

text \<open>
  \<open>getDate\<close> and \<open>setDate\<close> work in local time, which the time zone of the process
  determines: \<open>utcOffset\<close> is the offset in force at a UTC instant (\<open>LocalTZA(t, true)\<close> of
  ECMAScript) and \<open>localOffset\<close> the offset by which a local time is read back
  (\<open>LocalTZA(t, false)\<close>).
\<close>

record timezone =
  utcOffset :: "int \<Rightarrow> int"
  localOffset :: "int \<Rightarrow> int"

definition LocalTime :: "timezone \<Rightarrow> int \<Rightarrow> int" where
  "LocalTime tz t = t + utcOffset tz t"

definition UTC :: "timezone \<Rightarrow> int \<Rightarrow> int" where
  "UTC tz t = t - localOffset tz t"

text \<open>
  \<open>d.setDate(d.getDate() + k)\<close>. With \<open>t\<close> the local time of \<open>d\<close>, \<open>getDate\<close> is
  \<open>DateFromTime(t)\<close> and \<open>setDate(dt)\<close> stores
  \<open>UTC(MakeDate(MakeDay(YearFromTime(t), MonthFromTime(t), dt), TimeWithinDay(t)))\<close>; for
  \<open>dt = DateFromTime(t) + k\<close> that \<open>MakeDay\<close> is \<open>Day(t) + k\<close>, so the new local time is
  \<open>t + k * msPerDay\<close>: the same wall-clock time \<open>k\<close> local days later.
\<close>

definition setDateRelative :: "timezone \<Rightarrow> int \<Rightarrow> int \<Rightarrow> int" where
  "setDateRelative tz d k = UTC tz (LocalTime tz d + k * msPerDay)"

text \<open>The zone \<open>UTC\<close>, and \<open>Europe/London\<close> with its transitions of the year 2024
  (summer time from 2024-03-31T01:00Z to 2024-10-27T01:00Z).\<close>

definition utcZone :: timezone where
  "utcZone = \<lparr> utcOffset = (\<lambda>t. 0), localOffset = (\<lambda>t. 0) \<rparr>"

definition europeLondon2024 :: timezone where
  "europeLondon2024 =
     \<lparr> utcOffset = (\<lambda>t. if 1711846800000 \<le> t \<and> t < 1729990800000 then 3600000 else 0),
       localOffset = (\<lambda>t. if 1711850400000 \<le> t \<and> t < 1729994400000 then 3600000 else 0) \<rparr>"

text \<open>A zone whose offset never changes; and a zone in which a local day later is later.\<close>

definition fixedOffset :: "timezone \<Rightarrow> bool" where
  "fixedOffset tz = (\<exists>c. \<forall>t. utcOffset tz t = c \<and> localOffset tz t = c)"

definition progressive :: "timezone \<Rightarrow> bool" where
  "progressive tz = (\<forall>t. t < setDateRelative tz t 1)"

text \<open>
  \<open>getDateArray\<close>: the \<open>while\<close> loop, with \<open>dates.push\<close> as appending. It ends when the
  current date passes the stop date; \<open>None\<close> stands for a loop that never does.
\<close>

partial_function (option) getDateLoop :: "timezone \<Rightarrow> int \<Rightarrow> int \<Rightarrow> int list \<Rightarrow> int list option" where
  "getDateLoop tz currentDate stopDate dates =
     (if currentDate \<le> stopDate
      then getDateLoop tz (setDateRelative tz currentDate 1) stopDate (dates @ [formatDate currentDate])
      else Some dates)"

declare getDateLoop.simps [code]

definition getDateArray :: "timezone \<Rightarrow> int \<Rightarrow> int \<Rightarrow> int list option" where
  "getDateArray tz startDateStr endDateStr =
     getDateLoop tz (utcMidnight startDateStr) (utcMidnight endDateStr) []"

section \<open>The source adapters\<close>

text \<open>
  A credential is a string or \<open>undefined\<close>; \<open>!x\<close> holds of \<open>undefined\<close> and of the empty
  string.
\<close>

definition falsy :: "string option \<Rightarrow> bool" where
  "falsy x = (x = None \<or> x = Some [])"

definition truthy :: "string option \<Rightarrow> bool" where
  "truthy x = (\<exists>c cs. x = Some (c # cs))"

text \<open>
  The per-day object an adapter stores (\<open>{fbCost, fbClicks, fbImpr, fbConv}\<close> for Meta,
  \<open>{ttCost, ttClicks, ttImpr, ttConv}\<close> for TikTok), and the outcome of a promise.
\<close>

record PlatformEntry =
  pCost :: jsnum
  pClicks :: jsnum
  pImpr :: jsnum
  pConv :: jsnum

datatype 'a settled = Fulfilled 'a | Rejected string

text \<open>
  The requests an adapter sends: the date range and the two credentials it was called with.
\<close>

datatype upstream_call =
    MetaInsights int int "string option" "string option"
  | TikTokReport int int "string option" "string option"

text \<open>
  What the upstream answers. The rows carry, for each field the adapter reads, the number
  that its \<open>parseFloat(x || 0)\<close> or \<open>parseInt(x || 0, 10)\<close> makes of it (\<open>NaN\<close> for text
  that is no number); \<open>actions\<close> is the optional list of action type and parsed value. A row
  is stored under its day; a row whose key is not the text of a calendar day is left out, as
  no day of a range ever looks it up.
\<close>

record FbRow =
  date_start :: int
  fb_spend :: jsnum
  fb_clicks :: jsnum
  fb_impressions :: jsnum
  actions :: "(string \<times> jsnum) list option"

record TtRow =
  stat_time_day :: int
  tt_spend :: jsnum
  tt_clicks :: jsnum
  tt_impressions :: jsnum
  submit_form :: jsnum

text \<open>
  The answers an adapter tells apart:
  \<^item> \<open>FbUnreachable\<close>, \<open>TtUnreachable\<close>: \<open>fetch\<close> rejects, or the status is ok and reading the
    body throws (\<open>response.json()\<close> rejects, or the body has another shape than the one
    read); the text is the error's message.
  \<^item> \<open>FbNotOk\<close>, \<open>TtNotOk\<close>: \<open>response.ok\<close> is false and the error body is read; the text is
    \<open>errorData.error?.message || response.statusText\<close> for Meta and
    \<open>errorData.message || response.statusText\<close> for TikTok.
  \<^item> \<open>FbNotOkUnreadable\<close>, \<open>TtNotOkUnreadable\<close>: \<open>response.ok\<close> is false and reading the error
    body throws (\<open>response.json()\<close> rejects on a body that is not JSON); the text is the
    message of the error thrown.
  \<^item> \<open>FbJson\<close>: status ok, with the optional \<open>data\<close>. \<open>TtJson\<close>: status ok, with \<open>code\<close>,
    \<open>message\<close> and \<open>request_id\<close>, each possibly absent, and the optional \<open>data.list\<close>; the
    code, when present, is an integer (of fewer than 22 digits, so that it prints in plain
    decimal digits), the message and the request id, when present, are strings.
\<close>

datatype fb_reply =
    FbUnreachable string
  | FbNotOk string
  | FbNotOkUnreadable string
  | FbJson "FbRow list option"

datatype tt_reply =
    TtUnreachable string
  | TtNotOk string
  | TtNotOkUnreadable string
  | TtJson "int option" "string option" "string option" "TtRow list option"

text \<open>
  What a template literal makes of a value: the decimal text of an integer, the text itself
  of a string, \<open>undefined\<close> of an absent value.
\<close>

function showNat :: "nat \<Rightarrow> string" where
  "showNat n =
     (if n < 10 then [''0123456789'' ! n]
      else showNat (n div 10) @ [''0123456789'' ! (n mod 10)])"
  by pat_completeness auto
termination
  by (relation "measure id") auto

declare showNat.simps [simp del]

definition showInt :: "int \<Rightarrow> string" where
  "showInt i = (if i < 0 then ''-'' @ showNat (nat (- i)) else showNat (nat i))"

definition numberText :: "int option \<Rightarrow> string" where
  "numberText x = (case x of None \<Rightarrow> ''undefined'' | Some i \<Rightarrow> showInt i)"

definition stringText :: "string option \<Rightarrow> string" where
  "stringText x = (case x of None \<Rightarrow> ''undefined'' | Some t \<Rightarrow> t)"

definition fbConversions :: "FbRow \<Rightarrow> jsnum" where
  "fbConversions entry =
     (case actions entry of
        None \<Rightarrow> Fin 0
      | Some as \<Rightarrow>
          (case find (\<lambda>a. fst a = ''SurveyCompleted'') as of
             None \<Rightarrow> Fin 0
           | Some surveyAction \<Rightarrow> snd surveyAction))"

definition fbProcess :: "FbRow list \<Rightarrow> (int \<rightharpoonup> PlatformEntry)" where
  "fbProcess rows =
     foldl (\<lambda>processedData entry.
        processedData(date_start entry \<mapsto>
          \<lparr> pCost = fb_spend entry, pClicks = fb_clicks entry, pImpr = fb_impressions entry,
            pConv = fbConversions entry \<rparr>)) Map.empty rows"

definition ttProcess :: "TtRow list \<Rightarrow> (int \<rightharpoonup> PlatformEntry)" where
  "ttProcess rows =
     foldl (\<lambda>processedData entry.
        processedData(stat_time_day entry \<mapsto>
          \<lparr> pCost = tt_spend entry, pClicks = tt_clicks entry, pImpr = tt_impressions entry,
            pConv = submit_form entry \<rparr>)) Map.empty rows"

text \<open>
  The adapters return the requests they sent next to the outcome of their promise. An error
  thrown inside \<open>try\<close> is logged and thrown again, so it rejects the promise.
\<close>

definition fetchFacebookData ::
    "(upstream_call \<Rightarrow> fb_reply) \<Rightarrow> int \<Rightarrow> int \<Rightarrow> string option \<Rightarrow> string option \<Rightarrow>
     upstream_call list \<times> (int \<rightharpoonup> PlatformEntry) settled" where
  "fetchFacebookData upstream startDate endDate accessToken adAccountId =
     (if falsy accessToken \<or> falsy adAccountId then ([], Fulfilled Map.empty)
      else let request = MetaInsights startDate endDate accessToken adAccountId in
        (case upstream request of
           FbUnreachable message \<Rightarrow> ([request], Rejected message)
         | FbNotOk message \<Rightarrow> ([request], Rejected (''Facebook API request failed: '' @ message))
         | FbNotOkUnreadable message \<Rightarrow> ([request], Rejected message)
         | FbJson None \<Rightarrow> ([request], Fulfilled Map.empty)
         | FbJson (Some rows) \<Rightarrow> ([request], Fulfilled (fbProcess rows))))"

definition fetchTikTokData ::
    "(upstream_call \<Rightarrow> tt_reply) \<Rightarrow> int \<Rightarrow> int \<Rightarrow> string option \<Rightarrow> string option \<Rightarrow>
     upstream_call list \<times> (int \<rightharpoonup> PlatformEntry) settled" where
  "fetchTikTokData upstream startDate endDate accessToken advertiserId =
     (if falsy accessToken \<or> falsy advertiserId then ([], Fulfilled Map.empty)
      else let request = TikTokReport startDate endDate accessToken advertiserId in
        (case upstream request of
           TtUnreachable message \<Rightarrow> ([request], Rejected message)
         | TtNotOk message \<Rightarrow> ([request], Rejected (''TikTok API request failed: '' @ message))
         | TtNotOkUnreadable message \<Rightarrow> ([request], Rejected message)
         | TtJson code message request_id rows \<Rightarrow>
             (if code \<noteq> Some 0
              then ([request],
                    Rejected (''TikTok API error: '' @ stringText message @ '' (Code: '' @
                      numberText code @ '', Request ID: '' @ stringText request_id @ '')''))
              else case rows of
                None \<Rightarrow> ([request], Fulfilled Map.empty)
              | Some list \<Rightarrow> ([request], Fulfilled (ttProcess list)))))"

section \<open>The data endpoint\<close>

text \<open>
  \<open>parseInt(string, 10)\<close>: leading white space is skipped, one sign is read, then the
  longest run of decimal digits; text after the digits is ignored, and no digit at all gives
  \<open>NaN\<close>, here \<open>None\<close>. Strings are over the characters up to U+00FF. The result is the
  integer read; the handler only compares it with 90 and 365, which rounding to a double
  does not affect.
\<close>

definition isWhiteSpace :: "char \<Rightarrow> bool" where
  "isWhiteSpace c = (of_char c \<in> {9, 10, 11, 12, 13, 32, 160 :: nat})"

definition isDigit :: "char \<Rightarrow> bool" where
  "isDigit c = (48 \<le> (of_char c :: nat) \<and> (of_char c :: nat) \<le> 57)"

definition digitsValue :: "string \<Rightarrow> int" where
  "digitsValue Z = foldl (\<lambda>n c. n * 10 + (int (of_char c) - 48)) 0 Z"

definition parseInt10 :: "string \<Rightarrow> int option" where
  "parseInt10 inputString =
     (let S = dropWhile isWhiteSpace inputString;
          sign = (if take 1 S = ''-'' then - 1 else 1);
          S' = (if take 1 S = ''-'' \<or> take 1 S = ''+'' then drop 1 S else S);
          Z = takeWhile isDigit S'
      in if Z = [] then None else Some (sign * digitsValue Z))"

text \<open>
  The request: \<open>event.httpMethod\<close>, \<open>event.method\<close> (the field \<open>eventMethod\<close>) and
  \<open>event.query\<close>, each possibly \<open>undefined\<close>; a query parameter is a string. The
  surroundings of a run: the four credentials of \<open>process.env\<close>, the time zone of the
  process, the instant \<open>new Date()\<close> reads (the handler's two calls of it, a few
  instructions apart, read the same instant), and the two upstream services.
\<close>

record event =
  httpMethod :: "string option"
  eventMethod :: "string option"
  query :: "(string \<rightharpoonup> string) option"

record environment =
  META_ACCESS_TOKEN :: "string option"
  META_AD_ACCOUNT_ID :: "string option"
  TIKTOK_ACCESS_TOKEN :: "string option"
  TIKTOK_ADVERTISER_ID :: "string option"
  timeZone :: timezone
  now :: int
  meta :: "upstream_call \<Rightarrow> fb_reply"
  tiktok :: "upstream_call \<Rightarrow> tt_reply"

text \<open>
  A row of the table is the object \<open>{...baseMetricsEntry, ...derivedMetrics}\<close>: the nine
  fields of the one and the ten of the other, which share no name; it is kept as the pair of
  the two.
\<close>

record ProcessedMarketingDataEntry =
  raw :: RawMarketingDataEntry
  calculated :: CalculatedMetrics

datatype body = ErrorMessage string | Rows "ProcessedMarketingDataEntry list"

datatype response = Response (statusCode: nat) (responseBody: body)

text \<open>The look-back window: \<open>daysToFetch\<close> after the block that reads \<open>event.query.days\<close>.\<close>

definition daysToFetch :: "event \<Rightarrow> int" where
  "daysToFetch ev =
     (let queryParams = (case query ev of None \<Rightarrow> Map.empty | Some q \<Rightarrow> q) in
      case queryParams ''days'' of
        None \<Rightarrow> 90
      | Some days \<Rightarrow>
          if days = [] then 90
          else (case parseInt10 days of
                  None \<Rightarrow> 90
                | Some daysParam \<Rightarrow> if daysParam = 90 \<or> daysParam = 365 then daysParam else 90))"

definition startDateFormatted :: "environment \<Rightarrow> event \<Rightarrow> int" where
  "startDateFormatted env ev =
     formatDate (setDateRelative (timeZone env) (now env) (- (daysToFetch ev - 1)))"

definition endDateFormatted :: "environment \<Rightarrow> int" where
  "endDateFormatted env = formatDate (now env)"

text \<open>The two promises handed to \<open>Promise.allSettled\<close>, and what the handler makes of a
  settled one: its value when fulfilled, the empty object when rejected.\<close>

definition fbPlatformDataResult ::
    "environment \<Rightarrow> event \<Rightarrow> upstream_call list \<times> (int \<rightharpoonup> PlatformEntry) settled" where
  "fbPlatformDataResult env ev =
     fetchFacebookData (meta env) (startDateFormatted env ev) (endDateFormatted env)
       (META_ACCESS_TOKEN env) (META_AD_ACCOUNT_ID env)"

definition ttPlatformDataResult ::
    "environment \<Rightarrow> event \<Rightarrow> upstream_call list \<times> (int \<rightharpoonup> PlatformEntry) settled" where
  "ttPlatformDataResult env ev =
     fetchTikTokData (tiktok env) (startDateFormatted env ev) (endDateFormatted env)
       (TIKTOK_ACCESS_TOKEN env) (TIKTOK_ADVERTISER_ID env)"

definition valueOrEmpty :: "(int \<rightharpoonup> PlatformEntry) settled \<Rightarrow> (int \<rightharpoonup> PlatformEntry)" where
  "valueOrEmpty result = (case result of Fulfilled v \<Rightarrow> v | Rejected reason \<Rightarrow> Map.empty)"

definition defaultEntry :: PlatformEntry where
  "defaultEntry = \<lparr> pCost = Fin 0, pClicks = Fin 0, pImpr = Fin 0, pConv = Fin 0 \<rparr>"

text \<open>The function mapped over \<open>allDatesInRange\<close>. A stored entry is an object, hence truthy,
  so \<open>fbData[dateStr] || defaultFbEntry\<close> is the entry whenever there is one.\<close>

definition mergeDay ::
    "(int \<rightharpoonup> PlatformEntry) \<Rightarrow> (int \<rightharpoonup> PlatformEntry) \<Rightarrow> int \<Rightarrow> ProcessedMarketingDataEntry" where
  "mergeDay fbData ttData dateStr =
     (let fbEntry = (case fbData dateStr of Some e \<Rightarrow> e | None \<Rightarrow> defaultEntry);
          ttEntry = (case ttData dateStr of Some e \<Rightarrow> e | None \<Rightarrow> defaultEntry);
          baseMetricsEntry =
            \<lparr> date = dateStr,
              fbClicks = pClicks fbEntry, fbImpr = pImpr fbEntry,
              fbCost = pCost fbEntry, fbConv = pConv fbEntry,
              ttClicks = pClicks ttEntry, ttImpr = pImpr ttEntry,
              ttCost = pCost ttEntry, ttConv = pConv ttEntry \<rparr>;
          derivedMetrics = calculateAllDerivedMetrics baseMetricsEntry
      in \<lparr> raw = baseMetricsEntry, calculated = derivedMetrics \<rparr>)"

text \<open>
  \<open>Array.prototype.sort\<close> with a comparison function: the sort is stable, and \<open>a\<close> stays
  before \<open>b\<close> unless the comparison of \<open>a\<close> with \<open>b\<close> is positive. The handler compares by
  \<open>new Date(b.date).getTime() - new Date(a.date).getTime()\<close>.
\<close>

fun insertBy :: "('a \<Rightarrow> 'a \<Rightarrow> int) \<Rightarrow> 'a \<Rightarrow> 'a list \<Rightarrow> 'a list" where
  "insertBy cmp x [] = [x]"
| "insertBy cmp x (y # ys) = (if cmp x y \<le> 0 then x # y # ys else y # insertBy cmp x ys)"

definition array_sort :: "('a \<Rightarrow> 'a \<Rightarrow> int) \<Rightarrow> 'a list \<Rightarrow> 'a list" where
  "array_sort cmp xs = foldr (insertBy cmp) xs []"

definition byDateDescending :: "ProcessedMarketingDataEntry \<Rightarrow> ProcessedMarketingDataEntry \<Rightarrow> int" where
  "byDateDescending a b = utcMidnight (date (raw b)) - utcMidnight (date (raw a))"

definition fbData :: "environment \<Rightarrow> event \<Rightarrow> (int \<rightharpoonup> PlatformEntry)" where
  "fbData env ev = valueOrEmpty (snd (fbPlatformDataResult env ev))"

definition ttData :: "environment \<Rightarrow> event \<Rightarrow> (int \<rightharpoonup> PlatformEntry)" where
  "ttData env ev = valueOrEmpty (snd (ttPlatformDataResult env ev))"

definition finalData :: "environment \<Rightarrow> event \<Rightarrow> int list \<Rightarrow> ProcessedMarketingDataEntry list" where
  "finalData env ev allDatesInRange =
     array_sort byDateDescending (map (mergeDay (fbData env ev) (ttData env ev)) allDatesInRange)"

text \<open>The four base counters and the five derived metrics of one platform in a row are all zero.\<close>

definition fbAllZero :: "ProcessedMarketingDataEntry \<Rightarrow> bool" where
  "fbAllZero r =
     (fbClicks (raw r) = Fin 0 \<and> fbImpr (raw r) = Fin 0 \<and> fbCost (raw r) = Fin 0 \<and>
      fbConv (raw r) = Fin 0 \<and>
      fbCtr (calculated r) = Fin 0 \<and> fbCpm (calculated r) = Fin 0 \<and> fbCpc (calculated r) = Fin 0 \<and>
      fbCpa (calculated r) = Fin 0 \<and> fbCvr (calculated r) = Fin 0)"

definition ttAllZero :: "ProcessedMarketingDataEntry \<Rightarrow> bool" where
  "ttAllZero r =
     (ttClicks (raw r) = Fin 0 \<and> ttImpr (raw r) = Fin 0 \<and> ttCost (raw r) = Fin 0 \<and>
      ttConv (raw r) = Fin 0 \<and>
      ttCtr (calculated r) = Fin 0 \<and> ttCpm (calculated r) = Fin 0 \<and> ttCpc (calculated r) = Fin 0 \<and>
      ttCpa (calculated r) = Fin 0 \<and> ttCvr (calculated r) = Fin 0)"

text \<open>The columns of one platform in a row: the day, the four base counters and the five
  derived metrics.\<close>

definition fbColumns :: "ProcessedMarketingDataEntry \<Rightarrow> int \<times> jsnum list" where
  "fbColumns r =
     (date (raw r),
      [fbClicks (raw r), fbImpr (raw r), fbCost (raw r), fbConv (raw r),
       fbCtr (calculated r), fbCpm (calculated r), fbCpc (calculated r), fbCpa (calculated r),
       fbCvr (calculated r)])"

definition ttColumns :: "ProcessedMarketingDataEntry \<Rightarrow> int \<times> jsnum list" where
  "ttColumns r =
     (date (raw r),
      [ttClicks (raw r), ttImpr (raw r), ttCost (raw r), ttConv (raw r),
       ttCtr (calculated r), ttCpm (calculated r), ttCpc (calculated r), ttCpa (calculated r),
       ttCvr (calculated r)])"

text \<open>
  The handler returns the requests sent upstream next to its response; \<open>None\<close> stands for a
  run whose date loop never ends. The body of a response is the error message or the table
  that \<open>JSON.stringify\<close> is applied to; the headers are left out. Nothing in the \<open>try\<close> block
  throws (\<open>Promise.allSettled\<close> never rejects), so the \<open>catch\<close> with its status 500 has no
  case here.
\<close>

definition handler :: "environment \<Rightarrow> event \<Rightarrow> (upstream_call list \<times> response) option" where
  "handler env ev =
     (if httpMethod ev \<noteq> Some ''GET'' \<and> eventMethod ev \<noteq> Some ''GET''
      then Some ([], Response 405 (ErrorMessage ''Method Not Allowed. Please use GET.''))
      else if falsy (META_ACCESS_TOKEN env) \<or> falsy (META_AD_ACCOUNT_ID env) \<or>
              falsy (TIKTOK_ACCESS_TOKEN env) \<or> falsy (TIKTOK_ADVERTISER_ID env)
      then Some ([], Response 503 (ErrorMessage ''Service Unavailable: API credentials missing.''))
      else
        (case getDateArray (timeZone env) (startDateFormatted env ev) (endDateFormatted env) of
           None \<Rightarrow> None
         | Some allDatesInRange \<Rightarrow>
             Some (fst (fbPlatformDataResult env ev) @ fst (ttPlatformDataResult env ev),
                   Response 200 (Rows (finalData env ev allDatesInRange)))))"

text \<open>The days of the table a run returns, most recent first as returned; its rows; and its
  status.\<close>

definition tableDays :: "(upstream_call list \<times> response) option \<Rightarrow> int list" where
  "tableDays result =
     (case result of
        Some (calls, Response code (Rows rows)) \<Rightarrow> map (\<lambda>r. date (raw r)) rows
      | _ \<Rightarrow> [])"

definition tableRows ::
    "(upstream_call list \<times> response) option \<Rightarrow> ProcessedMarketingDataEntry list" where
  "tableRows result =
     (case result of
        Some (calls, Response code (Rows rows)) \<Rightarrow> rows
      | _ \<Rightarrow> [])"

definition statusOf :: "(upstream_call list \<times> response) option \<Rightarrow> nat option" where
  "statusOf result = map_option (\<lambda>r. statusCode (snd r)) result"

section \<open>Sample deployments and requests\<close>

text \<open>
  A configured deployment whose upstreams have no rows, in a given time zone at a given
  instant, and a plain \<open>GET\<close> with an optional \<open>days\<close> parameter. The instant
  \<open>1718407800000\<close> used below is 2024-06-14T23:30:00Z, day 19888; day 19800 is 2024-03-18
  and day 19813 is 2024-03-31.
\<close>

definition sampleEnv :: "timezone \<Rightarrow> int \<Rightarrow> environment" where
  "sampleEnv tz t =
     \<lparr> META_ACCESS_TOKEN = Some ''meta-token'', META_AD_ACCOUNT_ID = Some ''1234567890'',
       TIKTOK_ACCESS_TOKEN = Some ''tiktok-token'', TIKTOK_ADVERTISER_ID = Some ''7000000000000'',
       timeZone = tz, now = t,
       meta = (\<lambda>request. FbJson None),
       tiktok = (\<lambda>request. TtJson (Some 0) (Some ''OK'') (Some ''20240614233000010'') None) \<rparr>"

definition getRequest :: "string option \<Rightarrow> event" where
  "getRequest days =
     \<lparr> httpMethod = Some ''GET'', eventMethod = None,
       query = (case days of None \<Rightarrow> None | Some d \<Rightarrow> Some [''days'' \<mapsto> d]) \<rparr>"

text \<open>A deployment with no credential at all, and a \<open>POST\<close>.\<close>

definition unconfiguredEnv :: environment where
  "unconfiguredEnv =
     \<lparr> META_ACCESS_TOKEN = None, META_AD_ACCOUNT_ID = None,
       TIKTOK_ACCESS_TOKEN = None, TIKTOK_ADVERTISER_ID = None,
       timeZone = utcZone, now = 1718407800000,
       meta = (\<lambda>request. FbJson None),
       tiktok = (\<lambda>request. TtJson (Some 0) (Some ''OK'') (Some ''20240614233000010'') None) \<rparr>"

definition postRequest :: event where
  "postRequest = \<lparr> httpMethod = Some ''POST'', eventMethod = None, query = None \<rparr>"

text \<open>A deployment in which Meta reports the last day of the range only, and TikTok the day
  before it only.\<close>

definition partialEnv :: environment where
  "partialEnv = (sampleEnv utcZone 1718407800000)
     \<lparr> meta := (\<lambda>request. FbJson (Some
         [\<lparr> date_start = 19888, fb_spend = Fin 25, fb_clicks = Fin 50, fb_impressions = Fin 1000,
            actions = Some [(''link_click'', Fin 40), (''SurveyCompleted'', Fin 5)] \<rparr>])),
       tiktok := (\<lambda>request. TtJson (Some 0) (Some ''OK'') (Some ''20240614233000010'') (Some
         [\<lparr> stat_time_day = 19887, tt_spend = Fin 12, tt_clicks = Fin 30, tt_impressions = Fin 600,
            submit_form = Fin 3 \<rparr>])) \<rparr>"

text \<open>
  Deployments one of whose upstreams fails while the other reports one day: in
  \<open>Europe/London\<close> with Meta unreachable and TikTok reporting the day before the request; in
  \<open>UTC\<close> with Meta refusing the access token by an error status with a JSON error body and
  TikTok reporting the day of the request; and in \<open>UTC\<close> with TikTok refusing its token by
  response code 40105 under an ok status and Meta reporting the day of the request.
\<close>

definition londonMetaDownEnv :: environment where
  "londonMetaDownEnv = (sampleEnv europeLondon2024 1718407800000)
     \<lparr> meta := (\<lambda>request. FbUnreachable ''fetch failed''),
       tiktok := (\<lambda>request. TtJson (Some 0) (Some ''OK'') (Some ''20240614233000010'') (Some
         [\<lparr> stat_time_day = 19887, tt_spend = Fin 25, tt_clicks = Fin 50, tt_impressions = Fin 1000,
            submit_form = Fin 5 \<rparr>])) \<rparr>"

definition metaRefusedEnv :: environment where
  "metaRefusedEnv = (sampleEnv utcZone 1718407800000)
     \<lparr> meta := (\<lambda>request. FbNotOk ''Invalid OAuth access token.''),
       tiktok := (\<lambda>request. TtJson (Some 0) (Some ''OK'') (Some ''20240614233000010'') (Some
         [\<lparr> stat_time_day = 19888, tt_spend = Fin 25, tt_clicks = Fin 50, tt_impressions = Fin 1000,
            submit_form = Fin 5 \<rparr>])) \<rparr>"

definition tiktokRefusedEnv :: environment where
  "tiktokRefusedEnv = (sampleEnv utcZone 1718407800000)
     \<lparr> meta := (\<lambda>request. FbJson (Some
         [\<lparr> date_start = 19888, fb_spend = Fin 25, fb_clicks = Fin 50, fb_impressions = Fin 1000,
            actions = Some [(''SurveyCompleted'', Fin 5)] \<rparr>])),
       tiktok := (\<lambda>request. TtJson (Some 40105)
         (Some ''Access token is incorrect or has been revoked.'') (Some ''20240614233000011'')
         None) \<rparr>"

text \<open>The deployment \<open>partialEnv\<close> with the TikTok access token left unset.\<close>

definition tiktokUnconfiguredEnv :: environment where
  "tiktokUnconfiguredEnv = partialEnv \<lparr> TIKTOK_ACCESS_TOKEN := None \<rparr>"

section \<open>Properties of the metric deriver\<close>

lemma calculateMetric_zero_policy:
  "denominator = Fin 0 \<or> numerator = NaN \<or> denominator = NaN \<Longrightarrow>
     calculateMetric numerator denominator multiplier = Fin 0"
  by (auto simp: calculateMetric_def isNaN_def)

lemma calculateAllDerivedMetrics_zero_policy:
  "(fbImpr e = Fin 0 \<or> fbClicks e = NaN \<or> fbImpr e = NaN \<longrightarrow>
      fbCtr (calculateAllDerivedMetrics e) = Fin 0) \<and>
   (fbImpr e = Fin 0 \<or> fbCost e = NaN \<or> fbImpr e = NaN \<longrightarrow>
      fbCpm (calculateAllDerivedMetrics e) = Fin 0) \<and>
   (fbClicks e = Fin 0 \<or> fbCost e = NaN \<or> fbClicks e = NaN \<longrightarrow>
      fbCpc (calculateAllDerivedMetrics e) = Fin 0) \<and>
   (fbConv e = Fin 0 \<or> fbCost e = NaN \<or> fbConv e = NaN \<longrightarrow>
      fbCpa (calculateAllDerivedMetrics e) = Fin 0) \<and>
   (fbClicks e = Fin 0 \<or> fbConv e = NaN \<or> fbClicks e = NaN \<longrightarrow>
      fbCvr (calculateAllDerivedMetrics e) = Fin 0) \<and>
   (ttImpr e = Fin 0 \<or> ttClicks e = NaN \<or> ttImpr e = NaN \<longrightarrow>
      ttCtr (calculateAllDerivedMetrics e) = Fin 0) \<and>
   (ttImpr e = Fin 0 \<or> ttCost e = NaN \<or> ttImpr e = NaN \<longrightarrow>
      ttCpm (calculateAllDerivedMetrics e) = Fin 0) \<and>
   (ttClicks e = Fin 0 \<or> ttCost e = NaN \<or> ttClicks e = NaN \<longrightarrow>
      ttCpc (calculateAllDerivedMetrics e) = Fin 0) \<and>
   (ttConv e = Fin 0 \<or> ttCost e = NaN \<or> ttConv e = NaN \<longrightarrow>
      ttCpa (calculateAllDerivedMetrics e) = Fin 0) \<and>
   (ttClicks e = Fin 0 \<or> ttConv e = NaN \<or> ttClicks e = NaN \<longrightarrow>
      ttCvr (calculateAllDerivedMetrics e) = Fin 0)"
  by (simp add: calculateAllDerivedMetrics_def calculateMetric_zero_policy)

lemma calculateMetric_ts_zero_denominator:
  "calculateMetric_ts numerator (Fin 0) multiplier = Fin 0"
  by (simp add: calculateMetric_ts_def)

lemma calculateMetric_ratio:
  "denominator \<noteq> Fin 0 \<Longrightarrow> numerator \<noteq> NaN \<Longrightarrow> denominator \<noteq> NaN \<Longrightarrow>
     calculateMetric numerator denominator multiplier =
       js_mul (js_div numerator denominator) multiplier"
  by (simp add: calculateMetric_def isNaN_def)

lemma calculateMetric_ts_eq:
  "numerator \<noteq> NaN \<Longrightarrow> denominator \<noteq> NaN \<Longrightarrow>
     calculateMetric_ts numerator denominator multiplier =
       calculateMetric numerator denominator multiplier"
  by (simp add: calculateMetric_def calculateMetric_ts_def isNaN_def)

lemma example_ctr: "js_mul (js_div (Fin 50) (Fin 1000)) (Fin 100) = Fin 5"
  by code_simp

lemma example_cpm: "js_mul (js_div (Fin 25) (Fin 1000)) (Fin 1000) = Fin 25"
  by code_simp

lemma example_cpc: "js_mul (js_div (Fin 25) (Fin 50)) (Fin 1) = Fin (1 / 2)"
  by code_simp

lemma example_cpa: "js_mul (js_div (Fin 25) (Fin 5)) (Fin 1) = Fin 5"
  by code_simp

lemma example_cvr: "js_mul (js_div (Fin 5) (Fin 50)) (Fin 100) = Fin 10"
  by code_simp

lemmas example_ratios = example_ctr example_cpm example_cpc example_cpa example_cvr

text \<open>
  Claim C5. For every entry, each of the ten derived fields whose denominator is not zero and
  whose operands are numbers is the quotient of the table of formulas, computed in double
  arithmetic as \<open>(numerator / denominator) * multiplier\<close>: click-through rate
  \<open>clicks / impressions * 100\<close>, cost-per-mille \<open>cost / impressions * 1000\<close>, cost-per-click
  \<open>cost / clicks\<close>, cost-per-acquisition \<open>cost / conversions\<close>, conversion rate
  \<open>conversions / clicks * 100\<close>; this holds of the deriver of the data endpoint and of the
  frontend's. On the counters 50 clicks, 1000 impressions, cost 25.0 and 5 conversions both
  return exactly CTR 5, CPM 25, CPC 0.5, CPA 5 and CVR 10.
\<close>

theorem derived_metric_formulas:
  fixes e :: RawMarketingDataEntry
  shows
    "(fbImpr e \<noteq> Fin 0 \<and> fbClicks e \<noteq> NaN \<and> fbImpr e \<noteq> NaN \<longrightarrow>
        fbCtr (calculateAllDerivedMetrics e) = js_mul (js_div (fbClicks e) (fbImpr e)) (Fin 100) \<and>
        fbCtr (calculateAllMetrics e) = js_mul (js_div (fbClicks e) (fbImpr e)) (Fin 100)) \<and>
     (fbImpr e \<noteq> Fin 0 \<and> fbCost e \<noteq> NaN \<and> fbImpr e \<noteq> NaN \<longrightarrow>
        fbCpm (calculateAllDerivedMetrics e) = js_mul (js_div (fbCost e) (fbImpr e)) (Fin 1000) \<and>
        fbCpm (calculateAllMetrics e) = js_mul (js_div (fbCost e) (fbImpr e)) (Fin 1000)) \<and>
     (fbClicks e \<noteq> Fin 0 \<and> fbCost e \<noteq> NaN \<and> fbClicks e \<noteq> NaN \<longrightarrow>
        fbCpc (calculateAllDerivedMetrics e) = js_mul (js_div (fbCost e) (fbClicks e)) (Fin 1) \<and>
        fbCpc (calculateAllMetrics e) = js_mul (js_div (fbCost e) (fbClicks e)) (Fin 1)) \<and>
     (fbConv e \<noteq> Fin 0 \<and> fbCost e \<noteq> NaN \<and> fbConv e \<noteq> NaN \<longrightarrow>
        fbCpa (calculateAllDerivedMetrics e) = js_mul (js_div (fbCost e) (fbConv e)) (Fin 1) \<and>
        fbCpa (calculateAllMetrics e) = js_mul (js_div (fbCost e) (fbConv e)) (Fin 1)) \<and>
     (fbClicks e \<noteq> Fin 0 \<and> fbConv e \<noteq> NaN \<and> fbClicks e \<noteq> NaN \<longrightarrow>
        fbCvr (calculateAllDerivedMetrics e) = js_mul (js_div (fbConv e) (fbClicks e)) (Fin 100) \<and>
        fbCvr (calculateAllMetrics e) = js_mul (js_div (fbConv e) (fbClicks e)) (Fin 100)) \<and>
     (ttImpr e \<noteq> Fin 0 \<and> ttClicks e \<noteq> NaN \<and> ttImpr e \<noteq> NaN \<longrightarrow>
        ttCtr (calculateAllDerivedMetrics e) = js_mul (js_div (ttClicks e) (ttImpr e)) (Fin 100) \<and>
        ttCtr (calculateAllMetrics e) = js_mul (js_div (ttClicks e) (ttImpr e)) (Fin 100)) \<and>
     (ttImpr e \<noteq> Fin 0 \<and> ttCost e \<noteq> NaN \<and> ttImpr e \<noteq> NaN \<longrightarrow>
        ttCpm (calculateAllDerivedMetrics e) = js_mul (js_div (ttCost e) (ttImpr e)) (Fin 1000) \<and>
        ttCpm (calculateAllMetrics e) = js_mul (js_div (ttCost e) (ttImpr e)) (Fin 1000)) \<and>
     (ttClicks e \<noteq> Fin 0 \<and> ttCost e \<noteq> NaN \<and> ttClicks e \<noteq> NaN \<longrightarrow>
        ttCpc (calculateAllDerivedMetrics e) = js_mul (js_div (ttCost e) (ttClicks e)) (Fin 1) \<and>
        ttCpc (calculateAllMetrics e) = js_mul (js_div (ttCost e) (ttClicks e)) (Fin 1)) \<and>
     (ttConv e \<noteq> Fin 0 \<and> ttCost e \<noteq> NaN \<and> ttConv e \<noteq> NaN \<longrightarrow>
        ttCpa (calculateAllDerivedMetrics e) = js_mul (js_div (ttCost e) (ttConv e)) (Fin 1) \<and>
        ttCpa (calculateAllMetrics e) = js_mul (js_div (ttCost e) (ttConv e)) (Fin 1)) \<and>
     (ttClicks e \<noteq> Fin 0 \<and> ttConv e \<noteq> NaN \<and> ttClicks e \<noteq> NaN \<longrightarrow>
        ttCvr (calculateAllDerivedMetrics e) = js_mul (js_div (ttConv e) (ttClicks e)) (Fin 100) \<and>
        ttCvr (calculateAllMetrics e) = js_mul (js_div (ttConv e) (ttClicks e)) (Fin 100)) \<and>
     calculateAllDerivedMetrics exampleEntry =
       \<lparr> fbCtr = Fin 5, fbCpm = Fin 25, fbCpc = Fin (1 / 2), fbCpa = Fin 5, fbCvr = Fin 10,
         ttCtr = Fin 5, ttCpm = Fin 25, ttCpc = Fin (1 / 2), ttCpa = Fin 5, ttCvr = Fin 10 \<rparr> \<and>
     calculateAllMetrics exampleEntry =
       \<lparr> fbCtr = Fin 5, fbCpm = Fin 25, fbCpc = Fin (1 / 2), fbCpa = Fin 5, fbCvr = Fin 10,
         ttCtr = Fin 5, ttCpm = Fin 25, ttCpc = Fin (1 / 2), ttCpa = Fin 5, ttCvr = Fin 10 \<rparr>"
proof -
  have general:
    "\<And>n d m. d \<noteq> Fin 0 \<and> n \<noteq> NaN \<and> d \<noteq> NaN \<Longrightarrow>
       calculateMetric n d m = js_mul (js_div n d) m \<and>
       calculateMetric_ts n d m = js_mul (js_div n d) m"
    by (simp add: calculateMetric_def calculateMetric_ts_def isNaN_def)
  have backend:
    "calculateAllDerivedMetrics exampleEntry =
       \<lparr> fbCtr = Fin 5, fbCpm = Fin 25, fbCpc = Fin (1 / 2), fbCpa = Fin 5, fbCvr = Fin 10,
         ttCtr = Fin 5, ttCpm = Fin 25, ttCpc = Fin (1 / 2), ttCpa = Fin 5, ttCvr = Fin 10 \<rparr>"
    by (simp add: calculateAllDerivedMetrics_def calculateMetric_def isNaN_def exampleEntry_def
        example_ratios del: js_div.simps js_mul.simps)
  have frontend:
    "calculateAllMetrics exampleEntry =
       \<lparr> fbCtr = Fin 5, fbCpm = Fin 25, fbCpc = Fin (1 / 2), fbCpa = Fin 5, fbCvr = Fin 10,
         ttCtr = Fin 5, ttCpm = Fin 25, ttCpc = Fin (1 / 2), ttCpa = Fin 5, ttCvr = Fin 10 \<rparr>"
    by (simp add: calculateAllMetrics_def calculateMetric_ts_def exampleEntry_def example_ratios
        del: js_div.simps js_mul.simps)
  show ?thesis
    using general backend frontend
    by (simp add: calculateAllDerivedMetrics_def calculateAllMetrics_def)
qed

theorem derived_metric_formulas_witness:
  "((fbImpr exampleEntry \<noteq> Fin 0 \<and> fbClicks exampleEntry \<noteq> NaN \<and> fbImpr exampleEntry \<noteq> NaN) \<and>
      fbCtr (calculateAllDerivedMetrics exampleEntry) = js_mul (js_div (fbClicks exampleEntry) (fbImpr exampleEntry)) (Fin 100) \<and>
      fbCtr (calculateAllMetrics exampleEntry) = js_mul (js_div (fbClicks exampleEntry) (fbImpr exampleEntry)) (Fin 100)) \<and>
   ((fbImpr exampleEntry \<noteq> Fin 0 \<and> fbCost exampleEntry \<noteq> NaN \<and> fbImpr exampleEntry \<noteq> NaN) \<and>
      fbCpm (calculateAllDerivedMetrics exampleEntry) = js_mul (js_div (fbCost exampleEntry) (fbImpr exampleEntry)) (Fin 1000) \<and>
      fbCpm (calculateAllMetrics exampleEntry) = js_mul (js_div (fbCost exampleEntry) (fbImpr exampleEntry)) (Fin 1000)) \<and>
   ((fbClicks exampleEntry \<noteq> Fin 0 \<and> fbCost exampleEntry \<noteq> NaN \<and> fbClicks exampleEntry \<noteq> NaN) \<and>
      fbCpc (calculateAllDerivedMetrics exampleEntry) = js_mul (js_div (fbCost exampleEntry) (fbClicks exampleEntry)) (Fin 1) \<and>
      fbCpc (calculateAllMetrics exampleEntry) = js_mul (js_div (fbCost exampleEntry) (fbClicks exampleEntry)) (Fin 1)) \<and>
   ((fbConv exampleEntry \<noteq> Fin 0 \<and> fbCost exampleEntry \<noteq> NaN \<and> fbConv exampleEntry \<noteq> NaN) \<and>
      fbCpa (calculateAllDerivedMetrics exampleEntry) = js_mul (js_div (fbCost exampleEntry) (fbConv exampleEntry)) (Fin 1) \<and>
      fbCpa (calculateAllMetrics exampleEntry) = js_mul (js_div (fbCost exampleEntry) (fbConv exampleEntry)) (Fin 1)) \<and>
   ((fbClicks exampleEntry \<noteq> Fin 0 \<and> fbConv exampleEntry \<noteq> NaN \<and> fbClicks exampleEntry \<noteq> NaN) \<and>
      fbCvr (calculateAllDerivedMetrics exampleEntry) = js_mul (js_div (fbConv exampleEntry) (fbClicks exampleEntry)) (Fin 100) \<and>
      fbCvr (calculateAllMetrics exampleEntry) = js_mul (js_div (fbConv exampleEntry) (fbClicks exampleEntry)) (Fin 100)) \<and>
   ((ttImpr exampleEntry \<noteq> Fin 0 \<and> ttClicks exampleEntry \<noteq> NaN \<and> ttImpr exampleEntry \<noteq> NaN) \<and>
      ttCtr (calculateAllDerivedMetrics exampleEntry) = js_mul (js_div (ttClicks exampleEntry) (ttImpr exampleEntry)) (Fin 100) \<and>
      ttCtr (calculateAllMetrics exampleEntry) = js_mul (js_div (ttClicks exampleEntry) (ttImpr exampleEntry)) (Fin 100)) \<and>
   ((ttImpr exampleEntry \<noteq> Fin 0 \<and> ttCost exampleEntry \<noteq> NaN \<and> ttImpr exampleEntry \<noteq> NaN) \<and>
      ttCpm (calculateAllDerivedMetrics exampleEntry) = js_mul (js_div (ttCost exampleEntry) (ttImpr exampleEntry)) (Fin 1000) \<and>
      ttCpm (calculateAllMetrics exampleEntry) = js_mul (js_div (ttCost exampleEntry) (ttImpr exampleEntry)) (Fin 1000)) \<and>
   ((ttClicks exampleEntry \<noteq> Fin 0 \<and> ttCost exampleEntry \<noteq> NaN \<and> ttClicks exampleEntry \<noteq> NaN) \<and>
      ttCpc (calculateAllDerivedMetrics exampleEntry) = js_mul (js_div (ttCost exampleEntry) (ttClicks exampleEntry)) (Fin 1) \<and>
      ttCpc (calculateAllMetrics exampleEntry) = js_mul (js_div (ttCost exampleEntry) (ttClicks exampleEntry)) (Fin 1)) \<and>
   ((ttConv exampleEntry \<noteq> Fin 0 \<and> ttCost exampleEntry \<noteq> NaN \<and> ttConv exampleEntry \<noteq> NaN) \<and>
      ttCpa (calculateAllDerivedMetrics exampleEntry) = js_mul (js_div (ttCost exampleEntry) (ttConv exampleEntry)) (Fin 1) \<and>
      ttCpa (calculateAllMetrics exampleEntry) = js_mul (js_div (ttCost exampleEntry) (ttConv exampleEntry)) (Fin 1)) \<and>
   ((ttClicks exampleEntry \<noteq> Fin 0 \<and> ttConv exampleEntry \<noteq> NaN \<and> ttClicks exampleEntry \<noteq> NaN) \<and>
      ttCvr (calculateAllDerivedMetrics exampleEntry) = js_mul (js_div (ttConv exampleEntry) (ttClicks exampleEntry)) (Fin 100) \<and>
      ttCvr (calculateAllMetrics exampleEntry) = js_mul (js_div (ttConv exampleEntry) (ttClicks exampleEntry)) (Fin 100))"
proof -
  note formulas = derived_metric_formulas [of exampleEntry]
  have ok1: "fbImpr exampleEntry \<noteq> Fin 0 \<and> fbClicks exampleEntry \<noteq> NaN \<and> fbImpr exampleEntry \<noteq> NaN"
    by (simp add: exampleEntry_def)
  have r1: "fbCtr (calculateAllDerivedMetrics exampleEntry) = js_mul (js_div (fbClicks exampleEntry) (fbImpr exampleEntry)) (Fin 100) \<and>
      fbCtr (calculateAllMetrics exampleEntry) = js_mul (js_div (fbClicks exampleEntry) (fbImpr exampleEntry)) (Fin 100)"
    using formulas [THEN conjunct1] ok1 by (rule mp)
  have ok2: "fbImpr exampleEntry \<noteq> Fin 0 \<and> fbCost exampleEntry \<noteq> NaN \<and> fbImpr exampleEntry \<noteq> NaN"
    by (simp add: exampleEntry_def)
  have r2: "fbCpm (calculateAllDerivedMetrics exampleEntry) = js_mul (js_div (fbCost exampleEntry) (fbImpr exampleEntry)) (Fin 1000) \<and>
      fbCpm (calculateAllMetrics exampleEntry) = js_mul (js_div (fbCost exampleEntry) (fbImpr exampleEntry)) (Fin 1000)"
    using formulas [THEN conjunct2, THEN conjunct1] ok2 by (rule mp)
  have ok3: "fbClicks exampleEntry \<noteq> Fin 0 \<and> fbCost exampleEntry \<noteq> NaN \<and> fbClicks exampleEntry \<noteq> NaN"
    by (simp add: exampleEntry_def)
  have r3: "fbCpc (calculateAllDerivedMetrics exampleEntry) = js_mul (js_div (fbCost exampleEntry) (fbClicks exampleEntry)) (Fin 1) \<and>
      fbCpc (calculateAllMetrics exampleEntry) = js_mul (js_div (fbCost exampleEntry) (fbClicks exampleEntry)) (Fin 1)"
    using formulas [THEN conjunct2, THEN conjunct2, THEN conjunct1] ok3 by (rule mp)
  have ok4: "fbConv exampleEntry \<noteq> Fin 0 \<and> fbCost exampleEntry \<noteq> NaN \<and> fbConv exampleEntry \<noteq> NaN"
    by (simp add: exampleEntry_def)
  have r4: "fbCpa (calculateAllDerivedMetrics exampleEntry) = js_mul (js_div (fbCost exampleEntry) (fbConv exampleEntry)) (Fin 1) \<and>
      fbCpa (calculateAllMetrics exampleEntry) = js_mul (js_div (fbCost exampleEntry) (fbConv exampleEntry)) (Fin 1)"
    using formulas [THEN conjunct2, THEN conjunct2, THEN conjunct2, THEN conjunct1] ok4 by (rule mp)
  have ok5: "fbClicks exampleEntry \<noteq> Fin 0 \<and> fbConv exampleEntry \<noteq> NaN \<and> fbClicks exampleEntry \<noteq> NaN"
    by (simp add: exampleEntry_def)
  have r5: "fbCvr (calculateAllDerivedMetrics exampleEntry) = js_mul (js_div (fbConv exampleEntry) (fbClicks exampleEntry)) (Fin 100) \<and>
      fbCvr (calculateAllMetrics exampleEntry) = js_mul (js_div (fbConv exampleEntry) (fbClicks exampleEntry)) (Fin 100)"
    using formulas [THEN conjunct2, THEN conjunct2, THEN conjunct2, THEN conjunct2, THEN conjunct1] ok5 by (rule mp)
  have ok6: "ttImpr exampleEntry \<noteq> Fin 0 \<and> ttClicks exampleEntry \<noteq> NaN \<and> ttImpr exampleEntry \<noteq> NaN"
    by (simp add: exampleEntry_def)
  have r6: "ttCtr (calculateAllDerivedMetrics exampleEntry) = js_mul (js_div (ttClicks exampleEntry) (ttImpr exampleEntry)) (Fin 100) \<and>
      ttCtr (calculateAllMetrics exampleEntry) = js_mul (js_div (ttClicks exampleEntry) (ttImpr exampleEntry)) (Fin 100)"
    using formulas [THEN conjunct2, THEN conjunct2, THEN conjunct2, THEN conjunct2, THEN conjunct2, THEN conjunct1] ok6 by (rule mp)
  have ok7: "ttImpr exampleEntry \<noteq> Fin 0 \<and> ttCost exampleEntry \<noteq> NaN \<and> ttImpr exampleEntry \<noteq> NaN"
    by (simp add: exampleEntry_def)
  have r7: "ttCpm (calculateAllDerivedMetrics exampleEntry) = js_mul (js_div (ttCost exampleEntry) (ttImpr exampleEntry)) (Fin 1000) \<and>
      ttCpm (calculateAllMetrics exampleEntry) = js_mul (js_div (ttCost exampleEntry) (ttImpr exampleEntry)) (Fin 1000)"
    using formulas [THEN conjunct2, THEN conjunct2, THEN conjunct2, THEN conjunct2, THEN conjunct2, THEN conjunct2, THEN conjunct1] ok7 by (rule mp)
  have ok8: "ttClicks exampleEntry \<noteq> Fin 0 \<and> ttCost exampleEntry \<noteq> NaN \<and> ttClicks exampleEntry \<noteq> NaN"
    by (simp add: exampleEntry_def)
  have r8: "ttCpc (calculateAllDerivedMetrics exampleEntry) = js_mul (js_div (ttCost exampleEntry) (ttClicks exampleEntry)) (Fin 1) \<and>
      ttCpc (calculateAllMetrics exampleEntry) = js_mul (js_div (ttCost exampleEntry) (ttClicks exampleEntry)) (Fin 1)"
    using formulas [THEN conjunct2, THEN conjunct2, THEN conjunct2, THEN conjunct2, THEN conjunct2, THEN conjunct2, THEN conjunct2, THEN conjunct1] ok8 by (rule mp)
  have ok9: "ttConv exampleEntry \<noteq> Fin 0 \<and> ttCost exampleEntry \<noteq> NaN \<and> ttConv exampleEntry \<noteq> NaN"
    by (simp add: exampleEntry_def)
  have r9: "ttCpa (calculateAllDerivedMetrics exampleEntry) = js_mul (js_div (ttCost exampleEntry) (ttConv exampleEntry)) (Fin 1) \<and>
      ttCpa (calculateAllMetrics exampleEntry) = js_mul (js_div (ttCost exampleEntry) (ttConv exampleEntry)) (Fin 1)"
    using formulas [THEN conjunct2, THEN conjunct2, THEN conjunct2, THEN conjunct2, THEN conjunct2, THEN conjunct2, THEN conjunct2, THEN conjunct2, THEN conjunct1] ok9 by (rule mp)
  have ok10: "ttClicks exampleEntry \<noteq> Fin 0 \<and> ttConv exampleEntry \<noteq> NaN \<and> ttClicks exampleEntry \<noteq> NaN"
    by (simp add: exampleEntry_def)
  have r10: "ttCvr (calculateAllDerivedMetrics exampleEntry) = js_mul (js_div (ttConv exampleEntry) (ttClicks exampleEntry)) (Fin 100) \<and>
      ttCvr (calculateAllMetrics exampleEntry) = js_mul (js_div (ttConv exampleEntry) (ttClicks exampleEntry)) (Fin 100)"
    using formulas [THEN conjunct2, THEN conjunct2, THEN conjunct2, THEN conjunct2, THEN conjunct2, THEN conjunct2, THEN conjunct2, THEN conjunct2, THEN conjunct2, THEN conjunct1] ok10 by (rule mp)
  show ?thesis
    by (rule conjI [OF conjI [OF ok1 r1] conjI [OF conjI [OF ok2 r2] conjI [OF conjI [OF ok3 r3] conjI [OF conjI [OF ok4 r4] conjI [OF conjI [OF ok5 r5] conjI [OF conjI [OF ok6 r6] conjI [OF conjI [OF ok7 r7] conjI [OF conjI [OF ok8 r8] conjI [OF conjI [OF ok9 r9] conjI [OF ok10 r10]]]]]]]]]])
qed

text \<open>
  Claim C10. On every entry whose eight base counters are numbers (none is \<open>NaN\<close>), the
  frontend's \<open>calculateAllMetrics\<close> and the data endpoint's \<open>calculateAllDerivedMetrics\<close>
  return the same ten derived values.
\<close>

theorem derivers_agree_on_numbers:
  assumes "fbClicks e \<noteq> NaN" and "fbImpr e \<noteq> NaN" and "fbCost e \<noteq> NaN" and "fbConv e \<noteq> NaN"
    and "ttClicks e \<noteq> NaN" and "ttImpr e \<noteq> NaN" and "ttCost e \<noteq> NaN" and "ttConv e \<noteq> NaN"
  shows "calculateAllMetrics e = calculateAllDerivedMetrics e"
  using assms
  by (simp add: calculateAllMetrics_def calculateAllDerivedMetrics_def calculateMetric_ts_eq)

theorem derivers_agree_on_numbers_witness:
  "fbClicks exampleEntry \<noteq> NaN \<and> fbImpr exampleEntry \<noteq> NaN \<and> fbCost exampleEntry \<noteq> NaN \<and> fbConv exampleEntry \<noteq> NaN \<and>
   ttClicks exampleEntry \<noteq> NaN \<and> ttImpr exampleEntry \<noteq> NaN \<and> ttCost exampleEntry \<noteq> NaN \<and> ttConv exampleEntry \<noteq> NaN \<and>
   calculateAllMetrics exampleEntry = calculateAllDerivedMetrics exampleEntry"
  using derivers_agree_on_numbers [of exampleEntry]
  by (simp add: exampleEntry_def)

text \<open>
  Claim C1. Any ratio whose denominator is 0, or whose numerator or denominator is \<open>NaN\<close>,
  is to evaluate to exactly 0. The deriver of the data endpoint does so
  (\<open>calculateAllDerivedMetrics_zero_policy\<close>). The frontend's tests the denominator against 0 only: on an
  entry whose clicks are \<open>NaN\<close>, its click-through rate (clicks the numerator), its
  cost-per-click and its conversion rate (clicks the denominator) are \<open>NaN\<close>, where the data
  endpoint's are 0.
\<close>

theorem frontend_ratio_of_nan_numerator:
  "fbCtr (calculateAllMetrics (exampleEntry\<lparr>fbClicks := NaN\<rparr>)) = NaN \<and>
   fbCpc (calculateAllMetrics (exampleEntry\<lparr>fbClicks := NaN\<rparr>)) = NaN \<and>
   fbCvr (calculateAllMetrics (exampleEntry\<lparr>fbClicks := NaN\<rparr>)) = NaN \<and>
   fbCtr (calculateAllDerivedMetrics (exampleEntry\<lparr>fbClicks := NaN\<rparr>)) = Fin 0 \<and>
   fbCpc (calculateAllDerivedMetrics (exampleEntry\<lparr>fbClicks := NaN\<rparr>)) = Fin 0 \<and>
   fbCvr (calculateAllDerivedMetrics (exampleEntry\<lparr>fbClicks := NaN\<rparr>)) = Fin 0"
  by (simp add: calculateAllMetrics_def calculateAllDerivedMetrics_def calculateMetric_ts_def
      calculateMetric_def isNaN_def exampleEntry_def)

section \<open>The date-range enumerator\<close>

text \<open>
  In a zone of fixed offset a local day is 24 hours, and the enumerator returns the days from
  the start to the end, each once and in order (nothing when the start is after the end). In
  any zone where a local day later is a later instant the loop ends.
\<close>

lemma setDateRelative_fixed:
  "fixedOffset tz \<Longrightarrow> setDateRelative tz t k = t + k * msPerDay"
  by (auto simp: fixedOffset_def setDateRelative_def LocalTime_def UTC_def)

lemma fixedOffset_progressive: "fixedOffset tz \<Longrightarrow> progressive tz"
  by (simp add: progressive_def setDateRelative_fixed msPerDay_def)

lemma fixedOffset_utcZone: "fixedOffset utcZone"
  by (simp add: fixedOffset_def utcZone_def)

lemma formatDate_utcMidnight: "formatDate (utcMidnight d) = d"
  by (simp add: formatDate_def utcMidnight_def msPerDay_def)

lemma getDateLoop_fixed:
  "fixedOffset tz \<Longrightarrow>
     getDateLoop tz (utcMidnight d) (utcMidnight e) acc = Some (acc @ [d..e])"
proof (induction "nat (e - d + 1)" arbitrary: d acc)
  case 0
  then have "e < d" by simp
  then have "\<not> utcMidnight d \<le> utcMidnight e" by (simp add: utcMidnight_def msPerDay_def)
  with \<open>e < d\<close> show ?case by (subst getDateLoop.simps) simp
next
  case (Suc n)
  then have le: "d \<le> e" by simp
  have step: "setDateRelative tz (utcMidnight d) 1 = utcMidnight (d + 1)"
    using Suc.prems by (simp add: setDateRelative_fixed utcMidnight_def algebra_simps)
  have "n = nat (e - (d + 1) + 1)" using Suc.hyps(2) by simp
  from Suc.hyps(1)[OF this Suc.prems, of "acc @ [d]"]
  have "getDateLoop tz (utcMidnight (d + 1)) (utcMidnight e) (acc @ [d]) = Some (acc @ [d] @ [d + 1..e])"
    by simp
  moreover have "[d..e] = d # [d + 1..e]" using le by (simp add: upto_rec1)
  moreover have "utcMidnight d \<le> utcMidnight e" using le by (simp add: utcMidnight_def msPerDay_def)
  ultimately show ?case
    by (subst getDateLoop.simps) (simp add: step formatDate_utcMidnight)
qed

lemma getDateArray_fixed:
  "fixedOffset tz \<Longrightarrow> getDateArray tz startDateStr endDateStr = Some [startDateStr..endDateStr]"
  using getDateLoop_fixed [of tz startDateStr endDateStr "[]"] by (simp add: getDateArray_def)

lemma getDateLoop_progressive:
  "progressive tz \<Longrightarrow> \<exists>ds. getDateLoop tz currentDate stopDate dates = Some ds"
proof (induction "nat (stopDate - currentDate + 1)" arbitrary: currentDate dates rule: less_induct)
  case less
  show ?case
  proof (cases "currentDate \<le> stopDate")
    case False
    then show ?thesis by (subst getDateLoop.simps) simp
  next
    case True
    have "currentDate < setDateRelative tz currentDate 1"
      using less.prems by (simp add: progressive_def)
    with True have "nat (stopDate - setDateRelative tz currentDate 1 + 1) < nat (stopDate - currentDate + 1)"
      by simp
    from less.hyps [OF this less.prems]
    obtain ds where "getDateLoop tz (setDateRelative tz currentDate 1) stopDate
        (dates @ [formatDate currentDate]) = Some ds"
      by blast
    with True show ?thesis by (subst getDateLoop.simps) simp
  qed
qed

lemma getDateArray_progressive:
  "progressive tz \<Longrightarrow> \<exists>ds. getDateArray tz startDateStr endDateStr = Some ds"
  by (simp add: getDateArray_def getDateLoop_progressive)

lemma europeLondon2024_progressive: "progressive europeLondon2024"
  by (simp add: progressive_def setDateRelative_def LocalTime_def UTC_def msPerDay_def
      europeLondon2024_def)

text \<open>
  Claim C4. For start \<open>\<le>\<close> end the enumerator is to return exactly the end \<open>-\<close> start \<open>+ 1\<close>
  consecutive days from start to end, each once and ascending. It starts from UTC midnights
  and prints UTC days, but steps by \<open>setDate(getDate() + 1)\<close>, a step in local time. In
  \<open>Europe/London\<close>, over the change to summer time of 2024-03-31, the range from
  2024-03-30 (day 19812) to 2024-04-02 (day 19815) comes out as 03-30, 03-31, 03-31, 04-01:
  one day twice and the end day missing. In UTC the same range is the four days.
\<close>

theorem london_date_range:
  "getDateArray europeLondon2024 19812 19815 = Some [19812, 19813, 19813, 19814] \<and>
   getDateArray utcZone 19812 19815 = Some [19812, 19813, 19814, 19815]"
  by code_simp

section \<open>Sorting\<close>

lemma length_insertBy: "length (insertBy cmp x xs) = Suc (length xs)"
  by (induction xs) auto

lemma set_insertBy: "set (insertBy cmp x xs) = insert x (set xs)"
  by (induction xs) auto

lemma length_array_sort: "length (array_sort cmp xs) = length xs"
  by (induction xs) (auto simp: array_sort_def length_insertBy)

lemma set_array_sort: "set (array_sort cmp xs) = set xs"
  by (induction xs) (auto simp: array_sort_def set_insertBy)

lemma insertBy_last:
  "\<forall>y \<in> set ys. 0 < cmp x y \<Longrightarrow> insertBy cmp x ys = ys @ [x]"
  by (induction ys) auto

lemma array_sort_ascending_days:
  "array_sort byDateDescending (map f [d..e]) = rev (map f [d..e])"
  if "\<And>k. date (raw (f k)) = k"
proof (induction "nat (e - d + 1)" arbitrary: d)
  case 0
  then show ?case by (simp add: array_sort_def)
next
  case (Suc n)
  then have le: "d \<le> e" by simp
  have unfold: "[d..e] = d # [d + 1..e]" using le by (simp add: upto_rec1)
  have "n = nat (e - (d + 1) + 1)" using Suc.hyps(2) by simp
  from Suc.hyps(1)[OF this]
  have IH: "array_sort byDateDescending (map f [d + 1..e]) = rev (map f [d + 1..e])" .
  have "\<forall>y \<in> set (rev (map f [d + 1..e])). 0 < byDateDescending (f d) y"
    using that by (auto simp: byDateDescending_def utcMidnight_def msPerDay_def)
  then have "insertBy byDateDescending (f d) (rev (map f [d + 1..e])) = rev (map f [d + 1..e]) @ [f d]"
    by (rule insertBy_last)
  with IH show ?case
    by (simp add: unfold array_sort_def)
qed

lemma insertBy_map:
  "(\<And>a b. cmp' (f a) (f b) = cmp a b) \<Longrightarrow> insertBy cmp' (f x) (map f xs) = map f (insertBy cmp x xs)"
  by (induction xs) auto

lemma array_sort_map:
  "(\<And>a b. cmp' (f a) (f b) = cmp a b) \<Longrightarrow> array_sort cmp' (map f xs) = map f (array_sort cmp xs)"
  by (induction xs) (auto simp: array_sort_def insertBy_map)

section \<open>Rows and runs of the handler\<close>

lemma truthy_not_falsy: "truthy x \<Longrightarrow> \<not> falsy x"
  by (auto simp: truthy_def falsy_def)

lemma date_mergeDay: "date (raw (mergeDay fb tt d)) = d"
  by (simp add: mergeDay_def Let_def)


lemma calculateMetric_zero: "calculateMetric n (Fin 0) m = Fin 0"
  by (simp add: calculateMetric_def)

lemma mergeDay_fb_absent: "fb d = None \<Longrightarrow> fbAllZero (mergeDay fb tt d)"
  by (simp add: mergeDay_def Let_def fbAllZero_def defaultEntry_def calculateAllDerivedMetrics_def
      calculateMetric_zero)

lemma mergeDay_tt_absent: "tt d = None \<Longrightarrow> ttAllZero (mergeDay fb tt d)"
  by (simp add: mergeDay_def Let_def ttAllZero_def defaultEntry_def calculateAllDerivedMetrics_def
      calculateMetric_zero)



lemma set_finalData:
  "set (finalData env ev days) = mergeDay (fbData env ev) (ttData env ev) ` set days"
  by (simp add: finalData_def set_array_sort)

lemma length_finalData: "length (finalData env ev days) = length days"
  by (simp add: finalData_def length_array_sort)

lemma handler_run:
  assumes "httpMethod ev = Some ''GET'' \<or> eventMethod ev = Some ''GET''"
    and "truthy (META_ACCESS_TOKEN env)" and "truthy (META_AD_ACCOUNT_ID env)"
    and "truthy (TIKTOK_ACCESS_TOKEN env)" and "truthy (TIKTOK_ADVERTISER_ID env)"
    and "getDateArray (timeZone env) (startDateFormatted env ev) (endDateFormatted env) = Some days"
  shows "handler env ev =
     Some (fst (fbPlatformDataResult env ev) @ fst (ttPlatformDataResult env ev),
           Response 200 (Rows (finalData env ev days)))"
  using assms by (auto simp: handler_def dest: truthy_not_falsy)

lemma fbData_rejected: "snd (fbPlatformDataResult env ev) = Rejected reason \<Longrightarrow> fbData env ev d = None"
  by (simp add: fbData_def valueOrEmpty_def)

lemma ttData_rejected: "snd (ttPlatformDataResult env ev) = Rejected reason \<Longrightarrow> ttData env ev d = None"
  by (simp add: ttData_def valueOrEmpty_def)

lemma daysToFetch_cases: "daysToFetch ev = 90 \<or> daysToFetch ev = 365"
  by (auto simp: daysToFetch_def Let_def split: option.splits)

lemma startDateFormatted_fixed:
  "fixedOffset (timeZone env) \<Longrightarrow>
     startDateFormatted env ev = endDateFormatted env - (daysToFetch ev - 1)"
proof -
  assume "fixedOffset (timeZone env)"
  then have "setDateRelative (timeZone env) (now env) (- (daysToFetch ev - 1)) =
      now env + (- (daysToFetch ev - 1)) * msPerDay"
    by (rule setDateRelative_fixed)
  then show ?thesis
    by (simp add: startDateFormatted_def endDateFormatted_def formatDate_def msPerDay_def)
qed

lemma canonical_range_fixed:
  assumes "fixedOffset (timeZone env)"
  shows "getDateArray (timeZone env) (startDateFormatted env ev) (endDateFormatted env) =
     Some [endDateFormatted env - (daysToFetch ev - 1) .. endDateFormatted env]"
  using assms by (simp add: getDateArray_fixed startDateFormatted_fixed)

lemma length_canonical_range:
  "int (length [endDateFormatted env - (daysToFetch ev - 1) .. endDateFormatted env]) = daysToFetch ev"
  using daysToFetch_cases [of ev] by auto

lemma finalData_days:
  "map (\<lambda>r. date (raw r)) (finalData env ev days) =
     array_sort (\<lambda>a b. utcMidnight b - utcMidnight a) days"
proof -
  have "array_sort byDateDescending (map (mergeDay (fbData env ev) (ttData env ev)) days) =
      map (mergeDay (fbData env ev) (ttData env ev)) (array_sort (\<lambda>a b. utcMidnight b - utcMidnight a) days)"
    by (rule array_sort_map) (simp add: byDateDescending_def date_mergeDay)
  then show ?thesis
    by (simp add: finalData_def o_def date_mergeDay)
qed

lemma sampleEnv_ok:
  "progressive (timeZone (sampleEnv utcZone t)) \<and> fixedOffset (timeZone (sampleEnv utcZone t)) \<and>
   truthy (META_ACCESS_TOKEN (sampleEnv utcZone t)) \<and> truthy (META_AD_ACCOUNT_ID (sampleEnv utcZone t)) \<and>
   truthy (TIKTOK_ACCESS_TOKEN (sampleEnv utcZone t)) \<and> truthy (TIKTOK_ADVERTISER_ID (sampleEnv utcZone t))"
  by (simp add: sampleEnv_def truthy_def fixedOffset_utcZone fixedOffset_progressive)

lemma getRequest_is_get: "httpMethod (getRequest days) = Some ''GET''"
  by (simp add: getRequest_def)

lemma tableDays_run:
  assumes "httpMethod ev = Some ''GET'' \<or> eventMethod ev = Some ''GET''"
    and "truthy (META_ACCESS_TOKEN env)" and "truthy (META_AD_ACCOUNT_ID env)"
    and "truthy (TIKTOK_ACCESS_TOKEN env)" and "truthy (TIKTOK_ADVERTISER_ID env)"
    and "getDateArray (timeZone env) (startDateFormatted env ev) (endDateFormatted env) = Some days"
  shows "tableDays (handler env ev) = array_sort (\<lambda>a b. utcMidnight b - utcMidnight a) days"
  using handler_run [OF assms] finalData_days [of env ev days] by (simp add: tableDays_def)

lemma tableDays_upstream:
  assumes "httpMethod ev = Some ''GET'' \<or> eventMethod ev = Some ''GET''"
    and "truthy (META_ACCESS_TOKEN env)" and "truthy (META_AD_ACCOUNT_ID env)"
    and "truthy (TIKTOK_ACCESS_TOKEN env)" and "truthy (TIKTOK_ADVERTISER_ID env)"
    and "getDateArray (timeZone env) (startDateFormatted env ev) (endDateFormatted env) = Some days"
  shows "tableDays (handler (env\<lparr>meta := metaApi, tiktok := tiktokApi\<rparr>) ev) = tableDays (handler env ev)"
proof -
  let ?env = "env\<lparr>meta := metaApi, tiktok := tiktokApi\<rparr>"
  have "getDateArray (timeZone ?env) (startDateFormatted ?env ev) (endDateFormatted ?env) = Some days"
    using assms(6) by (simp add: startDateFormatted_def endDateFormatted_def)
  then have "tableDays (handler ?env ev) = array_sort (\<lambda>a b. utcMidnight b - utcMidnight a) days"
    using assms(1-5) by (intro tableDays_run) simp_all
  then show ?thesis
    using tableDays_run [OF assms] by simp
qed

lemma finalData_sorted:
  "finalData env ev days =
     map (mergeDay (fbData env ev) (ttData env ev))
       (array_sort (\<lambda>a b. utcMidnight b - utcMidnight a) days)"
  unfolding finalData_def
  by (rule array_sort_map) (simp add: byDateDescending_def date_mergeDay)

lemma tableRows_run:
  assumes "httpMethod ev = Some ''GET'' \<or> eventMethod ev = Some ''GET''"
    and "truthy (META_ACCESS_TOKEN env)" and "truthy (META_AD_ACCOUNT_ID env)"
    and "truthy (TIKTOK_ACCESS_TOKEN env)" and "truthy (TIKTOK_ADVERTISER_ID env)"
    and "getDateArray (timeZone env) (startDateFormatted env ev) (endDateFormatted env) = Some days"
  shows "tableRows (handler env ev) =
     map (mergeDay (fbData env ev) (ttData env ev))
       (array_sort (\<lambda>a b. utcMidnight b - utcMidnight a) days)"
  using handler_run [OF assms] finalData_sorted [of env ev days] by (simp add: tableRows_def)

text \<open>
  Whether one adapter's promise rejects, or both, or none, a run of the handler (a \<open>GET\<close> with
  the four credentials present) returns status 200 with one row for each day of the enumerated
  range, which is \<open>daysToFetch\<close> rows in a zone of fixed offset; the days of the table are those
  of the run with any other answers of the upstreams; and every row has the four base counters
  and the five derived metrics of a platform whose promise rejected equal to zero.
\<close>

lemma rejected_platform_zero_filled:
  assumes tz: "progressive (timeZone env)"
    and get: "httpMethod ev = Some ''GET'' \<or> eventMethod ev = Some ''GET''"
    and creds: "truthy (META_ACCESS_TOKEN env)" "truthy (META_AD_ACCOUNT_ID env)"
      "truthy (TIKTOK_ACCESS_TOKEN env)" "truthy (TIKTOK_ADVERTISER_ID env)"
  shows "\<exists>allDatesInRange calls rows.
      getDateArray (timeZone env) (startDateFormatted env ev) (endDateFormatted env) =
        Some allDatesInRange \<and>
      handler env ev = Some (calls, Response 200 (Rows rows)) \<and>
      length rows = length allDatesInRange \<and>
      (fixedOffset (timeZone env) \<longrightarrow> int (length rows) = daysToFetch ev) \<and>
      (\<forall>metaApi tiktokApi.
         tableDays (handler (env\<lparr>meta := metaApi, tiktok := tiktokApi\<rparr>) ev) =
           map (\<lambda>r. date (raw r)) rows) \<and>
      ((\<exists>reason. snd (fbPlatformDataResult env ev) = Rejected reason) \<longrightarrow>
         (\<forall>r \<in> set rows. fbAllZero r)) \<and>
      ((\<exists>reason. snd (ttPlatformDataResult env ev) = Rejected reason) \<longrightarrow>
         (\<forall>r \<in> set rows. ttAllZero r))"
proof -
  obtain days where days:
    "getDateArray (timeZone env) (startDateFormatted env ev) (endDateFormatted env) = Some days"
    using getDateArray_progressive [OF tz] by blast
  let ?rows = "finalData env ev days"
  have run: "handler env ev =
      Some (fst (fbPlatformDataResult env ev) @ fst (ttPlatformDataResult env ev),
            Response 200 (Rows ?rows))"
    using get creds days by (rule handler_run)
  have len: "length ?rows = length days"
    by (rule length_finalData)
  have full: "int (length ?rows) = daysToFetch ev" if "fixedOffset (timeZone env)"
  proof -
    from that days have "days = [endDateFormatted env - (daysToFetch ev - 1) .. endDateFormatted env]"
      by (simp add: canonical_range_fixed)
    then have "int (length days) = daysToFetch ev"
      using length_canonical_range [of env ev] by simp
    with len show ?thesis
      by simp
  qed
  have same: "\<forall>metaApi tiktokApi.
      tableDays (handler (env\<lparr>meta := metaApi, tiktok := tiktokApi\<rparr>) ev) =
        map (\<lambda>r. date (raw r)) ?rows"
    using tableDays_upstream [OF get creds days] run by (simp add: tableDays_def)
  have fb: "\<forall>r \<in> set ?rows. fbAllZero r"
    if "\<exists>reason. snd (fbPlatformDataResult env ev) = Rejected reason"
    using that by (auto simp: set_finalData fbData_rejected intro!: mergeDay_fb_absent)
  have tt: "\<forall>r \<in> set ?rows. ttAllZero r"
    if "\<exists>reason. snd (ttPlatformDataResult env ev) = Rejected reason"
    using that by (auto simp: set_finalData ttData_rejected intro!: mergeDay_tt_absent)
  from days run len full same fb tt show ?thesis
    by blast
qed

lemma daysToFetch_default: "daysToFetch (getRequest None) = 90"
  by (simp add: daysToFetch_def getRequest_def)







text \<open>
  In a zone of fixed offset the table of a run holds the \<open>daysToFetch\<close> days that end with
  the UTC day of the request, each once, most recent first.
\<close>

lemma fixed_zone_table:
  assumes tz: "fixedOffset (timeZone env)"
    and get: "httpMethod ev = Some ''GET'' \<or> eventMethod ev = Some ''GET''"
    and creds: "truthy (META_ACCESS_TOKEN env)" "truthy (META_AD_ACCOUNT_ID env)"
      "truthy (TIKTOK_ACCESS_TOKEN env)" "truthy (TIKTOK_ADVERTISER_ID env)"
  shows "statusOf (handler env ev) = Some 200 \<and>
     tableDays (handler env ev) =
       rev [endDateFormatted env - (daysToFetch ev - 1) .. endDateFormatted env]"
proof -
  let ?days = "[endDateFormatted env - (daysToFetch ev - 1) .. endDateFormatted env]"
  let ?row = "mergeDay (fbData env ev) (ttData env ev)"
  have run: "handler env ev =
      Some (fst (fbPlatformDataResult env ev) @ fst (ttPlatformDataResult env ev),
            Response 200 (Rows (finalData env ev ?days)))"
    using get creds canonical_range_fixed [OF tz] by (rule handler_run)
  have "finalData env ev ?days = rev (map ?row ?days)"
    unfolding finalData_def by (rule array_sort_ascending_days) (rule date_mergeDay)
  then have "map (\<lambda>r. date (raw r)) (finalData env ev ?days) = rev ?days"
    by (simp add: rev_map o_def date_mergeDay)
  with run show ?thesis
    by (simp add: statusOf_def tableDays_def)
qed

text \<open>So there it has \<open>daysToFetch\<close> rows, no day twice, strictly descending.\<close>

lemma fixed_zone_table_claim:
  assumes tz: "fixedOffset (timeZone env)"
    and get: "httpMethod ev = Some ''GET'' \<or> eventMethod ev = Some ''GET''"
    and creds: "truthy (META_ACCESS_TOKEN env)" "truthy (META_AD_ACCOUNT_ID env)"
      "truthy (TIKTOK_ACCESS_TOKEN env)" "truthy (TIKTOK_ADVERTISER_ID env)"
  shows "int (length (tableDays (handler env ev))) = daysToFetch ev \<and>
     distinct (tableDays (handler env ev)) \<and>
     sorted_wrt (\<lambda>a b. b < a) (tableDays (handler env ev))"
proof -
  let ?days = "[endDateFormatted env - (daysToFetch ev - 1) .. endDateFormatted env]"
  have days: "tableDays (handler env ev) = rev ?days"
    using fixed_zone_table [OF tz get creds] by simp
  have "int (length (rev ?days)) = daysToFetch ev"
    using length_canonical_range [of env ev] by simp
  moreover have "distinct (rev ?days)"
    by simp
  moreover have "sorted_wrt (\<lambda>a b. b < a) (rev ?days)"
    by (simp add: sorted_wrt_rev)
  ultimately show ?thesis
    by (simp only: days)
qed

lemma london_range:
  "startDateFormatted (sampleEnv europeLondon2024 1718407800000) (getRequest None) = 19800 \<and>
   endDateFormatted (sampleEnv europeLondon2024 1718407800000) = 19888"
  by (simp add: startDateFormatted_def endDateFormatted_def sampleEnv_def getRequest_def
      daysToFetch_def formatDate_def setDateRelative_def LocalTime_def UTC_def msPerDay_def
      europeLondon2024_def)

lemma london_days:
  "getDateArray europeLondon2024 19800 19888 = Some ([19800..19813] @ [19813..19887])"
  by code_simp

lemma london_sorted:
  "array_sort (\<lambda>a b. utcMidnight b - utcMidnight a) ([19800..19813] @ [19813..19887]) =
     rev ([19800..19813] @ [19813..19887])"
  by code_simp

text \<open>
  Claim C3. The table of a run is to have \<open>lookbackDays\<close> rows, no day twice, most recent
  day first. The handler takes the start of the range by \<open>setDate\<close> on \<open>getDate\<close>, in local
  time, and the enumerator steps in local time, while the days are printed in UTC. A \<open>GET\<close>
  without \<open>days\<close> (look-back 90) served in \<open>Europe/London\<close> at 2024-06-14T23:30:00Z
  returns 89 rows: the days from 2024-03-18 (19800) to 2024-06-13 (19887), with 2024-03-31
  (19813) twice and the UTC day of the request, 2024-06-14 (19888), missing.
\<close>

theorem london_run_table:
  "statusOf (handler (sampleEnv europeLondon2024 1718407800000) (getRequest None)) = Some 200 \<and>
   daysToFetch (getRequest None) = 90 \<and>
   tableDays (handler (sampleEnv europeLondon2024 1718407800000) (getRequest None)) =
     rev ([19800..19813] @ [19813..19887]) \<and>
   length (tableDays (handler (sampleEnv europeLondon2024 1718407800000) (getRequest None))) = 89 \<and>
   \<not> distinct (tableDays (handler (sampleEnv europeLondon2024 1718407800000) (getRequest None)))"
proof -
  let ?env = "sampleEnv europeLondon2024 1718407800000"
  let ?ev = "getRequest None"
  let ?days = "[19800..19813] @ [19813..19887]"
  have range: "getDateArray (timeZone ?env) (startDateFormatted ?env ?ev) (endDateFormatted ?env) = Some ?days"
    using london_range london_days by (simp add: sampleEnv_def)
  have run: "handler ?env ?ev =
      Some (fst (fbPlatformDataResult ?env ?ev) @ fst (ttPlatformDataResult ?env ?ev),
            Response 200 (Rows (finalData ?env ?ev ?days)))"
    by (rule handler_run [OF _ _ _ _ _ range]) (simp_all add: sampleEnv_def getRequest_def truthy_def)
  have days: "tableDays (handler ?env ?ev) = rev ?days"
    using finalData_days [of ?env ?ev ?days] london_sorted by (simp add: run tableDays_def)
  have status: "statusOf (handler ?env ?ev) = Some 200"
    by (simp add: run statusOf_def)
  have window: "daysToFetch ?ev = 90"
    by (simp add: daysToFetch_def getRequest_def)
  have len: "length (rev ?days) = 89"
    by simp
  have dup: "\<not> distinct (rev ?days)"
    by simp
  from status window days len dup show ?thesis
    by simp
qed

section \<open>A failing upstream\<close>

text \<open>The text of a rejection by a TikTok response code, as the template literal builds it.\<close>

lemma showInt_ex: "showInt 40105 = ''40105'' \<and> showInt (- 7) = ''-7'' \<and> showInt 0 = ''0''"
  by (simp add: showInt_def showNat.simps)

lemma tiktok_error_code_text:
  "snd (ttPlatformDataResult tiktokRefusedEnv (getRequest None)) =
     Rejected ''TikTok API error: Access token is incorrect or has been revoked. (Code: 40105, Request ID: 20240614233000011)''"
  by (simp add: ttPlatformDataResult_def fetchTikTokData_def tiktokRefusedEnv_def sampleEnv_def
      falsy_def stringText_def numberText_def showInt_def showNat.simps)

lemma londonMetaDown_range:
  "getDateArray (timeZone londonMetaDownEnv) (startDateFormatted londonMetaDownEnv (getRequest None))
     (endDateFormatted londonMetaDownEnv) = Some ([19800..19813] @ [19813..19887])"
proof -
  have "startDateFormatted londonMetaDownEnv (getRequest None) =
      startDateFormatted (sampleEnv europeLondon2024 1718407800000) (getRequest None)"
    by (simp add: startDateFormatted_def londonMetaDownEnv_def)
  moreover have "endDateFormatted londonMetaDownEnv =
      endDateFormatted (sampleEnv europeLondon2024 1718407800000)"
    by (simp add: endDateFormatted_def londonMetaDownEnv_def)
  moreover have "timeZone londonMetaDownEnv = europeLondon2024"
    by (simp add: londonMetaDownEnv_def sampleEnv_def)
  ultimately show ?thesis
    using london_range london_days by simp
qed

lemma londonMetaDown_rows:
  "tableRows (handler londonMetaDownEnv (getRequest None)) =
     map (mergeDay (fbData londonMetaDownEnv (getRequest None)) (ttData londonMetaDownEnv (getRequest None)))
       (rev ([19800..19813] @ [19813..19887]))"
  using tableRows_run [OF _ _ _ _ _ londonMetaDown_range] london_sorted
  by (simp add: londonMetaDownEnv_def sampleEnv_def getRequest_def truthy_def)

lemma londonMetaDown_fb:
  "snd (fbPlatformDataResult londonMetaDownEnv (getRequest None)) = Rejected ''fetch failed''"
  by (simp add: fbPlatformDataResult_def fetchFacebookData_def londonMetaDownEnv_def sampleEnv_def
      falsy_def)

lemma londonMetaDown_tt:
  "ttData londonMetaDownEnv (getRequest None) =
     [19887 \<mapsto> \<lparr> pCost = Fin 25, pClicks = Fin 50, pImpr = Fin 1000, pConv = Fin 5 \<rparr>]"
  by (simp add: ttData_def valueOrEmpty_def ttPlatformDataResult_def fetchTikTokData_def
      londonMetaDownEnv_def sampleEnv_def falsy_def ttProcess_def)

lemma hd_london: "hd (rev ([19800..19813] @ [19813..19887])) = (19887 :: int)"
  by (simp add: hd_rev)

lemma londonMetaDown_first_row:
  "mergeDay (fbData londonMetaDownEnv (getRequest None)) (ttData londonMetaDownEnv (getRequest None)) 19887 =
     \<lparr> raw = \<lparr> date = 19887, fbClicks = Fin 0, fbImpr = Fin 0, fbCost = Fin 0, fbConv = Fin 0,
               ttClicks = Fin 50, ttImpr = Fin 1000, ttCost = Fin 25, ttConv = Fin 5 \<rparr>,
       calculated = \<lparr> fbCtr = Fin 0, fbCpm = Fin 0, fbCpc = Fin 0, fbCpa = Fin 0, fbCvr = Fin 0,
               ttCtr = Fin 5, ttCpm = Fin 25, ttCpc = Fin (1 / 2), ttCpa = Fin 5, ttCvr = Fin 10 \<rparr> \<rparr>"
proof -
  have "fbData londonMetaDownEnv (getRequest None) 19887 = None"
    using londonMetaDown_fb by (rule fbData_rejected)
  then show ?thesis
    by (simp add: mergeDay_def Let_def londonMetaDown_tt defaultEntry_def
        calculateAllDerivedMetrics_def calculateMetric_def isNaN_def example_ratios
        del: js_div.simps js_mul.simps)
qed

text \<open>
  Claim C2. When the fetch of one adapter rejects, the run is still to return a table of full
  length, the failed platform zero in every row. A \<open>GET\<close> without \<open>days\<close> (look-back 90)
  served in \<open>Europe/London\<close> at 2024-06-14T23:30:00Z while Meta is unreachable and TikTok
  reports 2024-06-13 does not raise: it returns status 200, the counters and derived metrics
  of Meta are zero in every row, and the first row carries what TikTok reported; but the table
  has 89 rows, not 90: the days from 2024-03-18 (19800) to 2024-06-13 (19887), with 2024-03-31
  (19813) twice and the UTC day of the request, 2024-06-14 (19888), missing.
\<close>

theorem london_meta_down_table:
  "snd (fbPlatformDataResult londonMetaDownEnv (getRequest None)) = Rejected ''fetch failed'' \<and>
   statusOf (handler londonMetaDownEnv (getRequest None)) = Some 200 \<and>
   daysToFetch (getRequest None) = 90 \<and>
   length (tableRows (handler londonMetaDownEnv (getRequest None))) = 89 \<and>
   tableDays (handler londonMetaDownEnv (getRequest None)) = rev ([19800..19813] @ [19813..19887]) \<and>
   list_all fbAllZero (tableRows (handler londonMetaDownEnv (getRequest None))) \<and>
   hd (tableRows (handler londonMetaDownEnv (getRequest None))) =
     \<lparr> raw = \<lparr> date = 19887, fbClicks = Fin 0, fbImpr = Fin 0, fbCost = Fin 0, fbConv = Fin 0,
               ttClicks = Fin 50, ttImpr = Fin 1000, ttCost = Fin 25, ttConv = Fin 5 \<rparr>,
       calculated = \<lparr> fbCtr = Fin 0, fbCpm = Fin 0, fbCpc = Fin 0, fbCpa = Fin 0, fbCvr = Fin 0,
               ttCtr = Fin 5, ttCpm = Fin 25, ttCpc = Fin (1 / 2), ttCpa = Fin 5, ttCvr = Fin 10 \<rparr> \<rparr>"
proof -
  let ?env = "londonMetaDownEnv"
  let ?ev = "getRequest None"
  let ?days = "[19800..19813] @ [19813..19887] :: int list"
  let ?row = "mergeDay (fbData ?env ?ev) (ttData ?env ?ev)"
  have run: "handler ?env ?ev =
      Some (fst (fbPlatformDataResult ?env ?ev) @ fst (ttPlatformDataResult ?env ?ev),
            Response 200 (Rows (finalData ?env ?ev ?days)))"
    by (rule handler_run [OF _ _ _ _ _ londonMetaDown_range])
      (simp_all add: londonMetaDownEnv_def sampleEnv_def getRequest_def truthy_def)
  have status: "statusOf (handler ?env ?ev) = Some 200"
    by (simp add: run statusOf_def)
  have rows: "tableRows (handler ?env ?ev) = map ?row (rev ?days)"
    by (rule londonMetaDown_rows)
  have len: "length (tableRows (handler ?env ?ev)) = 89"
    unfolding rows by simp
  have days: "tableDays (handler ?env ?ev) = rev ?days"
    using finalData_days [of ?env ?ev ?days] london_sorted by (simp add: run tableDays_def)
  have "fbAllZero (?row d)" for d
    by (rule mergeDay_fb_absent) (rule fbData_rejected [OF londonMetaDown_fb])
  then have zero: "list_all fbAllZero (tableRows (handler ?env ?ev))"
    unfolding rows by (simp add: list_all_iff)
  have "hd (map ?row (rev ?days)) = ?row (hd (rev ?days))"
    by (rule hd_map) simp
  then have first: "hd (tableRows (handler ?env ?ev)) = ?row 19887"
    unfolding rows by (simp only: hd_london)
  show ?thesis
    using londonMetaDown_fb status daysToFetch_default len days zero
    by (simp only: first londonMetaDown_first_row simp_thms)
qed

section \<open>The look-back window\<close>

lemma takeWhile_digits_rest: "rest = [] \<or> \<not> isDigit (hd rest) \<Longrightarrow> takeWhile isDigit rest = []"
  by (cases rest) auto

lemma parseInt10_365:
  assumes "\<forall>c \<in> set ws. isWhiteSpace c" and "rest = [] \<or> \<not> isDigit (hd rest)"
  shows "parseInt10 (ws @ ''365'' @ rest) = Some 365"
proof -
  have "dropWhile isWhiteSpace (ws @ ''365'' @ rest) = ''365'' @ rest"
    using assms(1) by (simp add: dropWhile_append2 isWhiteSpace_def)
  moreover have "takeWhile isDigit (''365'' @ rest) = ''365''"
    using takeWhile_digits_rest [OF assms(2)] by (simp add: isDigit_def)
  ultimately show ?thesis
    by (simp add: parseInt10_def Let_def digitsValue_def)
qed

lemma parseInt10_90:
  assumes "\<forall>c \<in> set ws. isWhiteSpace c" and "rest = [] \<or> \<not> isDigit (hd rest)"
  shows "parseInt10 (ws @ ''90'' @ rest) = Some 90"
proof -
  have "dropWhile isWhiteSpace (ws @ ''90'' @ rest) = ''90'' @ rest"
    using assms(1) by (simp add: dropWhile_append2 isWhiteSpace_def)
  moreover have "takeWhile isDigit (''90'' @ rest) = ''90''"
    using takeWhile_digits_rest [OF assms(2)] by (simp add: isDigit_def)
  ultimately show ?thesis
    by (simp add: parseInt10_def Let_def digitsValue_def)
qed

lemma parseInt10_empty: "parseInt10 [] = None"
  by (simp add: parseInt10_def)

lemma daysToFetch_365:
  "(daysToFetch ev = 365) =
     (\<exists>q days. query ev = Some q \<and> q ''days'' = Some days \<and> parseInt10 days = Some 365)"
  by (cases "query ev") (auto simp: daysToFetch_def Let_def parseInt10_empty split: option.splits)

lemma handler_status_200:
  assumes tz: "progressive (timeZone env)"
    and get: "httpMethod ev = Some ''GET'' \<or> eventMethod ev = Some ''GET''"
    and creds: "truthy (META_ACCESS_TOKEN env)" "truthy (META_AD_ACCOUNT_ID env)"
      "truthy (TIKTOK_ACCESS_TOKEN env)" "truthy (TIKTOK_ADVERTISER_ID env)"
  shows "statusOf (handler env ev) = Some 200"
proof -
  obtain days where days:
    "getDateArray (timeZone env) (startDateFormatted env ev) (endDateFormatted env) = Some days"
    using getDateArray_progressive [OF tz] by blast
  show ?thesis
    using handler_run [OF get creds days] by (simp add: statusOf_def)
qed

text \<open>
  Claim C7, amended. The window is 90 or 365. It is 365 exactly when the request has a
  \<open>days\<close> parameter that \<open>parseInt(days, 10)\<close> reads as 365, and 90 otherwise. \<open>parseInt\<close>
  reads 365 (or 90) from any text that, after white space, starts with these digits and goes
  on with no digit, so not only from the text \<open>365\<close> itself. Whatever the parameter, a \<open>GET\<close>
  with the credentials present is answered with status 200.
\<close>

theorem lookback_window_selection:
  "(daysToFetch ev = 90 \<or> daysToFetch ev = 365) \<and>
   ((daysToFetch ev = 365) =
      (\<exists>q days. query ev = Some q \<and> q ''days'' = Some days \<and> parseInt10 days = Some 365)) \<and>
   (\<forall>ws rest. (\<forall>c \<in> set ws. isWhiteSpace c) \<and> (rest = [] \<or> \<not> isDigit (hd rest)) \<longrightarrow>
      parseInt10 (ws @ ''365'' @ rest) = Some 365 \<and> parseInt10 (ws @ ''90'' @ rest) = Some 90) \<and>
   (progressive (timeZone env) \<and>
    (httpMethod ev = Some ''GET'' \<or> eventMethod ev = Some ''GET'') \<and>
    truthy (META_ACCESS_TOKEN env) \<and> truthy (META_AD_ACCOUNT_ID env) \<and>
    truthy (TIKTOK_ACCESS_TOKEN env) \<and> truthy (TIKTOK_ADVERTISER_ID env) \<longrightarrow>
      statusOf (handler env ev) = Some 200)"
proof -
  have window: "daysToFetch ev = 90 \<or> daysToFetch ev = 365"
    by (rule daysToFetch_cases)
  have year: "(daysToFetch ev = 365) =
      (\<exists>q days. query ev = Some q \<and> q ''days'' = Some days \<and> parseInt10 days = Some 365)"
    by (rule daysToFetch_365)
  have prefix: "\<forall>ws rest. (\<forall>c \<in> set ws. isWhiteSpace c) \<and> (rest = [] \<or> \<not> isDigit (hd rest)) \<longrightarrow>
      parseInt10 (ws @ ''365'' @ rest) = Some 365 \<and> parseInt10 (ws @ ''90'' @ rest) = Some 90"
  proof (intro allI impI)
    fix ws rest
    assume h: "(\<forall>c \<in> set ws. isWhiteSpace c) \<and> (rest = [] \<or> \<not> isDigit (hd rest))"
    show "parseInt10 (ws @ ''365'' @ rest) = Some 365 \<and> parseInt10 (ws @ ''90'' @ rest) = Some 90"
      using parseInt10_365 [OF conjunct1 [OF h] conjunct2 [OF h]]
        parseInt10_90 [OF conjunct1 [OF h] conjunct2 [OF h]]
      by (rule conjI)
  qed
  have served: "progressive (timeZone env) \<and>
    (httpMethod ev = Some ''GET'' \<or> eventMethod ev = Some ''GET'') \<and>
    truthy (META_ACCESS_TOKEN env) \<and> truthy (META_AD_ACCOUNT_ID env) \<and>
    truthy (TIKTOK_ACCESS_TOKEN env) \<and> truthy (TIKTOK_ADVERTISER_ID env) \<longrightarrow>
      statusOf (handler env ev) = Some 200"
    by (simp add: handler_status_200)
  show ?thesis
    by (rule conjI [OF window conjI [OF year conjI [OF prefix served]]])
qed

text \<open>
  The claim as stated fails: the value \<open>365.5\<close> is not 365, and it is not replaced by 90; the
  table of such a request, served in UTC, has 365 rows.
\<close>

theorem lookback_counterexample:
  "daysToFetch (getRequest (Some ''365.5'')) = 365 \<and>
   length (tableDays (handler (sampleEnv utcZone 1718407800000) (getRequest (Some ''365.5'')))) = 365"
proof -
  let ?ev = "getRequest (Some ''365.5'')"
  let ?env = "sampleEnv utcZone 1718407800000"
  have window: "daysToFetch ?ev = 365"
    by (simp add: daysToFetch_def getRequest_def parseInt10_def Let_def isWhiteSpace_def isDigit_def
        digitsValue_def)
  have "tableDays (handler ?env ?ev) =
      rev [endDateFormatted ?env - (daysToFetch ?ev - 1) .. endDateFormatted ?env]"
    using fixed_zone_table [of ?env ?ev] sampleEnv_ok [of 1718407800000]
      getRequest_is_get [of "Some ''365.5''"]
    by simp
  then have "length (tableDays (handler ?env ?ev)) = 365"
    by (simp add: window)
  with window show ?thesis
    by (rule conjI)
qed

theorem lookback_window_selection_witness:
  "daysToFetch (getRequest (Some '' 365 days'')) = 365 \<and>
   statusOf (handler (sampleEnv utcZone 1718407800000) (getRequest (Some '' 365 days''))) = Some 200"
proof -
  let ?ev = "getRequest (Some '' 365 days'')"
  let ?env = "sampleEnv utcZone 1718407800000"
  note sel = lookback_window_selection [of ?ev ?env]
  have ws: "(\<forall>c \<in> set '' ''. isWhiteSpace c) \<and> ('' days'' = [] \<or> \<not> isDigit (hd '' days''))"
    by (simp add: isWhiteSpace_def isDigit_def)
  have "parseInt10 ('' '' @ ''365'' @ '' days'') = Some 365 \<and>
      parseInt10 ('' '' @ ''90'' @ '' days'') = Some 90"
    using sel [THEN conjunct2, THEN conjunct2, THEN conjunct1, THEN spec, THEN spec] ws
    by (rule mp)
  then have "parseInt10 '' 365 days'' = Some 365"
    by simp
  then have "\<exists>q days. query ?ev = Some q \<and> q ''days'' = Some days \<and> parseInt10 days = Some 365"
    by (simp add: getRequest_def)
  with sel [THEN conjunct2, THEN conjunct1] have d: "daysToFetch ?ev = 365"
    by (rule iffD2)
  have "progressive (timeZone ?env) \<and>
    (httpMethod ?ev = Some ''GET'' \<or> eventMethod ?ev = Some ''GET'') \<and>
    truthy (META_ACCESS_TOKEN ?env) \<and> truthy (META_AD_ACCOUNT_ID ?env) \<and>
    truthy (TIKTOK_ACCESS_TOKEN ?env) \<and> truthy (TIKTOK_ADVERTISER_ID ?env)"
    using sampleEnv_ok [of 1718407800000] getRequest_is_get [of "Some '' 365 days''"] by simp
  with sel [THEN conjunct2, THEN conjunct2, THEN conjunct2]
  have "statusOf (handler ?env ?ev) = Some 200"
    by (rule mp)
  with d show ?thesis
    by (rule conjI)
qed

section \<open>The gates of the handler\<close>

text \<open>
  Claim C8, amended. A request whose method is not \<open>GET\<close> is answered 405; a \<open>GET\<close> for
  which one of the four credentials is missing is answered 503. In both cases no request has
  been sent upstream and the body is an error message, not a table.
\<close>

theorem credentials_gate:
  "(httpMethod ev \<noteq> Some ''GET'' \<and> eventMethod ev \<noteq> Some ''GET'' \<longrightarrow>
      handler env ev = Some ([], Response 405 (ErrorMessage ''Method Not Allowed. Please use GET.''))) \<and>
   ((httpMethod ev = Some ''GET'' \<or> eventMethod ev = Some ''GET'') \<and>
    (falsy (META_ACCESS_TOKEN env) \<or> falsy (META_AD_ACCOUNT_ID env) \<or>
     falsy (TIKTOK_ACCESS_TOKEN env) \<or> falsy (TIKTOK_ADVERTISER_ID env)) \<longrightarrow>
      handler env ev =
        Some ([], Response 503 (ErrorMessage ''Service Unavailable: API credentials missing.'')))"
  by (auto simp: handler_def)

text \<open>
  The claim as stated fails: a \<open>POST\<close> to a deployment without credentials is answered 405,
  not 503.
\<close>

theorem credentials_gate_counterexample:
  "handler unconfiguredEnv postRequest =
     Some ([], Response 405 (ErrorMessage ''Method Not Allowed. Please use GET.''))"
  by (simp add: handler_def postRequest_def)

theorem credentials_gate_witness:
  "httpMethod postRequest \<noteq> Some ''GET'' \<and> eventMethod postRequest \<noteq> Some ''GET'' \<and>
   handler (sampleEnv utcZone 1718407800000) postRequest =
     Some ([], Response 405 (ErrorMessage ''Method Not Allowed. Please use GET.'')) \<and>
   httpMethod (getRequest None) = Some ''GET'' \<and> falsy (META_ACCESS_TOKEN unconfiguredEnv) \<and>
   handler unconfiguredEnv (getRequest None) =
     Some ([], Response 503 (ErrorMessage ''Service Unavailable: API credentials missing.''))"
proof -
  have post: "httpMethod postRequest \<noteq> Some ''GET'' \<and> eventMethod postRequest \<noteq> Some ''GET''"
    by (simp add: postRequest_def)
  have refused: "handler (sampleEnv utcZone 1718407800000) postRequest =
      Some ([], Response 405 (ErrorMessage ''Method Not Allowed. Please use GET.''))"
    using credentials_gate [of postRequest "sampleEnv utcZone 1718407800000", THEN conjunct1] post
    by (rule mp)
  have get: "httpMethod (getRequest None) = Some ''GET''"
    by (simp add: getRequest_def)
  have missing: "falsy (META_ACCESS_TOKEN unconfiguredEnv)"
    by (simp add: unconfiguredEnv_def falsy_def)
  have unavailable: "handler unconfiguredEnv (getRequest None) =
      Some ([], Response 503 (ErrorMessage ''Service Unavailable: API credentials missing.''))"
    using credentials_gate [of "getRequest None" unconfiguredEnv, THEN conjunct2] get missing
    by blast
  from post refused get missing unavailable show ?thesis
    by (intro conjI) (erule conjunct1, erule conjunct2)
qed

section \<open>The guard of the adapters\<close>

lemma fetch_absent:
  "falsy accessToken \<or> falsy accountId \<Longrightarrow>
     fetchFacebookData metaApi startDate endDate accessToken accountId = ([], Fulfilled Map.empty) \<and>
     fetchTikTokData tiktokApi startDate endDate accessToken accountId = ([], Fulfilled Map.empty)"
  by (auto simp: fetchFacebookData_def fetchTikTokData_def)

lemma fetch_calls:
  "truthy accessToken \<and> truthy accountId \<Longrightarrow>
     fst (fetchFacebookData metaApi startDate endDate accessToken accountId) =
       [MetaInsights startDate endDate accessToken accountId] \<and>
     fst (fetchTikTokData tiktokApi startDate endDate accessToken accountId) =
       [TikTokReport startDate endDate accessToken accountId]"
  by (auto simp: fetchFacebookData_def fetchTikTokData_def Let_def dest: truthy_not_falsy
      split: fb_reply.splits tt_reply.splits option.splits)

lemma fetchFacebookData_refused:
  "truthy accessToken \<and> truthy accountId \<Longrightarrow>
     (\<forall>message. metaApi (MetaInsights startDate endDate accessToken accountId) = FbNotOk message \<longrightarrow>
        snd (fetchFacebookData metaApi startDate endDate accessToken accountId) =
          Rejected (''Facebook API request failed: '' @ message)) \<and>
     (\<forall>message. metaApi (MetaInsights startDate endDate accessToken accountId) = FbNotOkUnreadable message \<longrightarrow>
        snd (fetchFacebookData metaApi startDate endDate accessToken accountId) = Rejected message)"
  by (auto simp: fetchFacebookData_def Let_def dest: truthy_not_falsy)

lemma fetchTikTokData_refused:
  "truthy accessToken \<and> truthy accountId \<Longrightarrow>
     (\<forall>message. tiktokApi (TikTokReport startDate endDate accessToken accountId) = TtNotOk message \<longrightarrow>
        snd (fetchTikTokData tiktokApi startDate endDate accessToken accountId) =
          Rejected (''TikTok API request failed: '' @ message)) \<and>
     (\<forall>message. tiktokApi (TikTokReport startDate endDate accessToken accountId) = TtNotOkUnreadable message \<longrightarrow>
        snd (fetchTikTokData tiktokApi startDate endDate accessToken accountId) = Rejected message) \<and>
     (\<forall>code message request_id rows.
        tiktokApi (TikTokReport startDate endDate accessToken accountId) =
          TtJson code message request_id rows \<and> code \<noteq> Some 0 \<longrightarrow>
        snd (fetchTikTokData tiktokApi startDate endDate accessToken accountId) =
          Rejected (''TikTok API error: '' @ stringText message @ '' (Code: '' @ numberText code @
            '', Request ID: '' @ stringText request_id @ '')''))"
  by (auto simp: fetchTikTokData_def Let_def dest: truthy_not_falsy)

lemma handler_unconfigured:
  "(httpMethod ev = Some ''GET'' \<or> eventMethod ev = Some ''GET'') \<and>
   (falsy (META_ACCESS_TOKEN env) \<or> falsy (META_AD_ACCOUNT_ID env) \<or>
    falsy (TIKTOK_ACCESS_TOKEN env) \<or> falsy (TIKTOK_ADVERTISER_ID env)) \<Longrightarrow>
     handler env ev =
       Some ([], Response 503 (ErrorMessage ''Service Unavailable: API credentials missing.''))"
  by (auto simp: handler_def)

lemma handler_calls:
  assumes tz: "progressive (timeZone env)"
    and get: "httpMethod ev = Some ''GET'' \<or> eventMethod ev = Some ''GET''"
    and creds: "truthy (META_ACCESS_TOKEN env)" "truthy (META_AD_ACCOUNT_ID env)"
      "truthy (TIKTOK_ACCESS_TOKEN env)" "truthy (TIKTOK_ADVERTISER_ID env)"
  shows "\<exists>rows. handler env ev =
     Some ([MetaInsights (startDateFormatted env ev) (endDateFormatted env)
              (META_ACCESS_TOKEN env) (META_AD_ACCOUNT_ID env),
            TikTokReport (startDateFormatted env ev) (endDateFormatted env)
              (TIKTOK_ACCESS_TOKEN env) (TIKTOK_ADVERTISER_ID env)],
           Response 200 (Rows rows))"
proof -
  obtain days where days:
    "getDateArray (timeZone env) (startDateFormatted env ev) (endDateFormatted env) = Some days"
    using getDateArray_progressive [OF tz] by blast
  have "fst (fbPlatformDataResult env ev) =
      [MetaInsights (startDateFormatted env ev) (endDateFormatted env)
         (META_ACCESS_TOKEN env) (META_AD_ACCOUNT_ID env)]"
    unfolding fbPlatformDataResult_def using fetch_calls creds(1,2) by blast
  moreover have "fst (ttPlatformDataResult env ev) =
      [TikTokReport (startDateFormatted env ev) (endDateFormatted env)
         (TIKTOK_ACCESS_TOKEN env) (TIKTOK_ADVERTISER_ID env)]"
    unfolding ttPlatformDataResult_def using fetch_calls creds(3,4) by blast
  ultimately show ?thesis
    using handler_run [OF get creds days] by simp
qed

lemma ttColumns_mergeDay: "ttColumns (mergeDay fb tt d) = ttColumns (mergeDay fb' tt d)"
  by (simp add: ttColumns_def mergeDay_def Let_def calculateAllDerivedMetrics_def)

lemma fbColumns_mergeDay: "fbColumns (mergeDay fb tt d) = fbColumns (mergeDay fb tt' d)"
  by (simp add: fbColumns_def mergeDay_def Let_def calculateAllDerivedMetrics_def)

lemma columns_independent:
  assumes tz: "progressive (timeZone env)"
    and get: "httpMethod ev = Some ''GET'' \<or> eventMethod ev = Some ''GET''"
    and creds: "truthy (META_ACCESS_TOKEN env)" "truthy (META_AD_ACCOUNT_ID env)"
      "truthy (TIKTOK_ACCESS_TOKEN env)" "truthy (TIKTOK_ADVERTISER_ID env)"
  shows "map ttColumns (tableRows (handler (env\<lparr>meta := otherMeta\<rparr>) ev)) =
       map ttColumns (tableRows (handler env ev)) \<and>
     map fbColumns (tableRows (handler (env\<lparr>tiktok := otherTikTok\<rparr>) ev)) =
       map fbColumns (tableRows (handler env ev))"
proof -
  obtain days where days:
    "getDateArray (timeZone env) (startDateFormatted env ev) (endDateFormatted env) = Some days"
    using getDateArray_progressive [OF tz] by blast
  let ?sorted = "array_sort (\<lambda>a b. utcMidnight b - utcMidnight a) days"
  let ?envM = "env\<lparr>meta := otherMeta\<rparr>"
  let ?envT = "env\<lparr>tiktok := otherTikTok\<rparr>"
  have rows: "tableRows (handler env ev) = map (mergeDay (fbData env ev) (ttData env ev)) ?sorted"
    using get creds days by (rule tableRows_run)
  have "getDateArray (timeZone ?envM) (startDateFormatted ?envM ev) (endDateFormatted ?envM) = Some days"
    using days by (simp add: startDateFormatted_def endDateFormatted_def)
  then have rowsM: "tableRows (handler ?envM ev) =
      map (mergeDay (fbData ?envM ev) (ttData ?envM ev)) ?sorted"
    using get creds by (intro tableRows_run) simp_all
  have "getDateArray (timeZone ?envT) (startDateFormatted ?envT ev) (endDateFormatted ?envT) = Some days"
    using days by (simp add: startDateFormatted_def endDateFormatted_def)
  then have rowsT: "tableRows (handler ?envT ev) =
      map (mergeDay (fbData ?envT ev) (ttData ?envT ev)) ?sorted"
    using get creds by (intro tableRows_run) simp_all
  have tt: "ttData ?envM ev = ttData env ev"
    by (simp add: ttData_def ttPlatformDataResult_def startDateFormatted_def endDateFormatted_def)
  have fb: "fbData ?envT ev = fbData env ev"
    by (simp add: fbData_def fbPlatformDataResult_def startDateFormatted_def endDateFormatted_def)
  have "map ttColumns (tableRows (handler ?envM ev)) = map ttColumns (tableRows (handler env ev))"
    unfolding rows rowsM tt map_map o_def
    by (rule map_cong [OF refl]) (rule ttColumns_mergeDay)
  moreover have "map fbColumns (tableRows (handler ?envT ev)) = map fbColumns (tableRows (handler env ev))"
    unfolding rows rowsT fb map_map o_def
    by (rule map_cong [OF refl]) (rule fbColumns_mergeDay)
  ultimately show ?thesis
    by simp
qed

lemma fixed_zone_first_row:
  assumes tz: "fixedOffset (timeZone env)"
    and get: "httpMethod ev = Some ''GET'' \<or> eventMethod ev = Some ''GET''"
    and creds: "truthy (META_ACCESS_TOKEN env)" "truthy (META_AD_ACCOUNT_ID env)"
      "truthy (TIKTOK_ACCESS_TOKEN env)" "truthy (TIKTOK_ADVERTISER_ID env)"
  shows "hd (tableRows (handler env ev)) =
     mergeDay (fbData env ev) (ttData env ev) (endDateFormatted env)"
proof -
  let ?days = "[endDateFormatted env - (daysToFetch ev - 1) .. endDateFormatted env]"
  let ?row = "mergeDay (fbData env ev) (ttData env ev)"
  have run: "handler env ev =
      Some (fst (fbPlatformDataResult env ev) @ fst (ttPlatformDataResult env ev),
            Response 200 (Rows (finalData env ev ?days)))"
    using get creds canonical_range_fixed [OF tz] by (rule handler_run)
  have "finalData env ev ?days = rev (map ?row ?days)"
    unfolding finalData_def by (rule array_sort_ascending_days) (rule date_mergeDay)
  then have rows: "tableRows (handler env ev) = rev (map ?row ?days)"
    by (simp add: run tableRows_def)
  have "endDateFormatted env - (daysToFetch ev - 1) \<le> endDateFormatted env"
    using daysToFetch_cases [of ev] by auto
  then have "?days \<noteq> [] \<and> last ?days = endDateFormatted env"
    by (simp add: upto_rec2)
  then show ?thesis
    unfolding rows by (simp add: hd_rev last_map)
qed

lemma metaRefusedEnv_ok:
  "progressive (timeZone metaRefusedEnv) \<and>
   (httpMethod (getRequest None) = Some ''GET'' \<or> eventMethod (getRequest None) = Some ''GET'') \<and>
   truthy (META_ACCESS_TOKEN metaRefusedEnv) \<and> truthy (META_AD_ACCOUNT_ID metaRefusedEnv) \<and>
   truthy (TIKTOK_ACCESS_TOKEN metaRefusedEnv) \<and> truthy (TIKTOK_ADVERTISER_ID metaRefusedEnv)"
  by (simp add: metaRefusedEnv_def sampleEnv_def truthy_def getRequest_def fixedOffset_utcZone
      fixedOffset_progressive)

lemma metaRefusedEnv_dates:
  "startDateFormatted metaRefusedEnv (getRequest None) = 19799 \<and>
   endDateFormatted metaRefusedEnv = 19888"
proof -
  have last_day: "endDateFormatted metaRefusedEnv = 19888"
    by (simp add: endDateFormatted_def metaRefusedEnv_def sampleEnv_def formatDate_def msPerDay_def)
  have "fixedOffset (timeZone metaRefusedEnv)"
    by (simp add: metaRefusedEnv_def sampleEnv_def fixedOffset_utcZone)
  then have "startDateFormatted metaRefusedEnv (getRequest None) =
      endDateFormatted metaRefusedEnv - (daysToFetch (getRequest None) - 1)"
    by (rule startDateFormatted_fixed)
  with last_day show ?thesis
    by (simp add: daysToFetch_default)
qed

lemma metaRefusedEnv_first_row:
  "snd (fbPlatformDataResult metaRefusedEnv (getRequest None)) =
     Rejected ''Facebook API request failed: Invalid OAuth access token.'' \<and>
   ttColumns (hd (tableRows (handler metaRefusedEnv (getRequest None)))) =
     (19888, [Fin 50, Fin 1000, Fin 25, Fin 5, Fin 5, Fin 25, Fin (1 / 2), Fin 5, Fin 10])"
proof -
  let ?ev = "getRequest None"
  have fb: "snd (fbPlatformDataResult metaRefusedEnv ?ev) =
      Rejected ''Facebook API request failed: Invalid OAuth access token.''"
    by (simp add: fbPlatformDataResult_def fetchFacebookData_def metaRefusedEnv_def sampleEnv_def
        falsy_def)
  have tt: "ttData metaRefusedEnv ?ev =
      [19888 \<mapsto> \<lparr> pCost = Fin 25, pClicks = Fin 50, pImpr = Fin 1000, pConv = Fin 5 \<rparr>]"
    by (simp add: ttData_def valueOrEmpty_def ttPlatformDataResult_def fetchTikTokData_def
        metaRefusedEnv_def sampleEnv_def falsy_def ttProcess_def)
  have "fixedOffset (timeZone metaRefusedEnv)"
    by (simp add: metaRefusedEnv_def sampleEnv_def fixedOffset_utcZone)
  then have "hd (tableRows (handler metaRefusedEnv ?ev)) =
      mergeDay (fbData metaRefusedEnv ?ev) (ttData metaRefusedEnv ?ev) (endDateFormatted metaRefusedEnv)"
    using metaRefusedEnv_ok by (intro fixed_zone_first_row) simp_all
  then have "ttColumns (hd (tableRows (handler metaRefusedEnv ?ev))) =
      (19888, [Fin 50, Fin 1000, Fin 25, Fin 5, Fin 5, Fin 25, Fin (1 / 2), Fin 5, Fin 10])"
    by (simp add: metaRefusedEnv_dates tt ttColumns_def mergeDay_def Let_def
        calculateAllDerivedMetrics_def calculateMetric_def isNaN_def example_ratios
        del: js_div.simps js_mul.simps)
  with fb show ?thesis
    by simp
qed

text \<open>
  Claim C9, amended. An adapter called with one of its two credentials absent (undefined or
  empty) fulfils with the empty mapping and sends nothing upstream. Called with both present
  it sends exactly one request, whatever they are worth, and its promise rejects when the
  upstream refuses them: by an error status, with the text \<open>Facebook API request failed:\<close> or
  \<open>TikTok API request failed:\<close> and the upstream's message, or with the message of the error
  thrown when the error body is not JSON; and, for TikTok, by a response code other than 0,
  with the text \<open>TikTok API error:\<close>, the message, the code and the request id. A \<open>GET\<close> to a
  deployment with one of the four credentials absent is answered 503 and no adapter is called,
  so there the platform left unconfigured blocks the other. A \<open>GET\<close> to a deployment with the
  four present, in a zone where a local day later is later, calls both adapters and is
  answered 200 with a table, whatever the upstreams answer; and the columns of each platform
  in the table are the same whatever the upstream of the other platform answers, so a
  platform whose credentials are refused does not block the other.
\<close>

theorem adapter_guard:
  "(falsy accessToken \<or> falsy accountId \<longrightarrow>
      fetchFacebookData metaApi startDate endDate accessToken accountId = ([], Fulfilled Map.empty) \<and>
      fetchTikTokData tiktokApi startDate endDate accessToken accountId = ([], Fulfilled Map.empty)) \<and>
   (truthy accessToken \<and> truthy accountId \<longrightarrow>
      (fst (fetchFacebookData metaApi startDate endDate accessToken accountId) =
         [MetaInsights startDate endDate accessToken accountId] \<and>
       fst (fetchTikTokData tiktokApi startDate endDate accessToken accountId) =
         [TikTokReport startDate endDate accessToken accountId]) \<and>
      ((\<forall>message. metaApi (MetaInsights startDate endDate accessToken accountId) = FbNotOk message \<longrightarrow>
          snd (fetchFacebookData metaApi startDate endDate accessToken accountId) =
            Rejected (''Facebook API request failed: '' @ message)) \<and>
       (\<forall>message. metaApi (MetaInsights startDate endDate accessToken accountId) = FbNotOkUnreadable message \<longrightarrow>
          snd (fetchFacebookData metaApi startDate endDate accessToken accountId) = Rejected message)) \<and>
      ((\<forall>message. tiktokApi (TikTokReport startDate endDate accessToken accountId) = TtNotOk message \<longrightarrow>
          snd (fetchTikTokData tiktokApi startDate endDate accessToken accountId) =
            Rejected (''TikTok API request failed: '' @ message)) \<and>
       (\<forall>message. tiktokApi (TikTokReport startDate endDate accessToken accountId) = TtNotOkUnreadable message \<longrightarrow>
          snd (fetchTikTokData tiktokApi startDate endDate accessToken accountId) = Rejected message) \<and>
       (\<forall>code message request_id rows.
          tiktokApi (TikTokReport startDate endDate accessToken accountId) =
            TtJson code message request_id rows \<and> code \<noteq> Some 0 \<longrightarrow>
          snd (fetchTikTokData tiktokApi startDate endDate accessToken accountId) =
            Rejected (''TikTok API error: '' @ stringText message @ '' (Code: '' @ numberText code @
              '', Request ID: '' @ stringText request_id @ '')'')))) \<and>
   ((httpMethod ev = Some ''GET'' \<or> eventMethod ev = Some ''GET'') \<and>
    (falsy (META_ACCESS_TOKEN env) \<or> falsy (META_AD_ACCOUNT_ID env) \<or>
     falsy (TIKTOK_ACCESS_TOKEN env) \<or> falsy (TIKTOK_ADVERTISER_ID env)) \<longrightarrow>
      handler env ev =
        Some ([], Response 503 (ErrorMessage ''Service Unavailable: API credentials missing.''))) \<and>
   (progressive (timeZone env) \<and>
    (httpMethod ev = Some ''GET'' \<or> eventMethod ev = Some ''GET'') \<and>
    truthy (META_ACCESS_TOKEN env) \<and> truthy (META_AD_ACCOUNT_ID env) \<and>
    truthy (TIKTOK_ACCESS_TOKEN env) \<and> truthy (TIKTOK_ADVERTISER_ID env) \<longrightarrow>
      (\<exists>rows. handler env ev =
         Some ([MetaInsights (startDateFormatted env ev) (endDateFormatted env)
                  (META_ACCESS_TOKEN env) (META_AD_ACCOUNT_ID env),
                TikTokReport (startDateFormatted env ev) (endDateFormatted env)
                  (TIKTOK_ACCESS_TOKEN env) (TIKTOK_ADVERTISER_ID env)],
               Response 200 (Rows rows))) \<and>
      (\<forall>otherMeta. map ttColumns (tableRows (handler (env\<lparr>meta := otherMeta\<rparr>) ev)) =
         map ttColumns (tableRows (handler env ev))) \<and>
      (\<forall>otherTikTok. map fbColumns (tableRows (handler (env\<lparr>tiktok := otherTikTok\<rparr>) ev)) =
         map fbColumns (tableRows (handler env ev))))"
proof (intro conjI impI)
  assume "falsy accessToken \<or> falsy accountId"
  then show "fetchFacebookData metaApi startDate endDate accessToken accountId = ([], Fulfilled Map.empty)"
    and "fetchTikTokData tiktokApi startDate endDate accessToken accountId = ([], Fulfilled Map.empty)"
    using fetch_absent by blast+
next
  assume present: "truthy accessToken \<and> truthy accountId"
  then show "fst (fetchFacebookData metaApi startDate endDate accessToken accountId) =
         [MetaInsights startDate endDate accessToken accountId]"
    and "fst (fetchTikTokData tiktokApi startDate endDate accessToken accountId) =
         [TikTokReport startDate endDate accessToken accountId]"
    using fetch_calls by blast+
  from present show "\<forall>message. metaApi (MetaInsights startDate endDate accessToken accountId) = FbNotOk message \<longrightarrow>
          snd (fetchFacebookData metaApi startDate endDate accessToken accountId) =
            Rejected (''Facebook API request failed: '' @ message)"
    by (rule fetchFacebookData_refused [THEN conjunct1])
  from present show "\<forall>message. metaApi (MetaInsights startDate endDate accessToken accountId) = FbNotOkUnreadable message \<longrightarrow>
          snd (fetchFacebookData metaApi startDate endDate accessToken accountId) = Rejected message"
    by (rule fetchFacebookData_refused [THEN conjunct2])
  from present show "\<forall>message. tiktokApi (TikTokReport startDate endDate accessToken accountId) = TtNotOk message \<longrightarrow>
          snd (fetchTikTokData tiktokApi startDate endDate accessToken accountId) =
            Rejected (''TikTok API request failed: '' @ message)"
    by (rule fetchTikTokData_refused [THEN conjunct1])
  from present show "\<forall>message. tiktokApi (TikTokReport startDate endDate accessToken accountId) = TtNotOkUnreadable message \<longrightarrow>
          snd (fetchTikTokData tiktokApi startDate endDate accessToken accountId) = Rejected message"
    by (rule fetchTikTokData_refused [THEN conjunct2, THEN conjunct1])
  from present show "\<forall>code message request_id rows.
          tiktokApi (TikTokReport startDate endDate accessToken accountId) =
            TtJson code message request_id rows \<and> code \<noteq> Some 0 \<longrightarrow>
          snd (fetchTikTokData tiktokApi startDate endDate accessToken accountId) =
            Rejected (''TikTok API error: '' @ stringText message @ '' (Code: '' @ numberText code @
              '', Request ID: '' @ stringText request_id @ '')'')"
    by (rule fetchTikTokData_refused [THEN conjunct2, THEN conjunct2])
next
  assume "(httpMethod ev = Some ''GET'' \<or> eventMethod ev = Some ''GET'') \<and>
    (falsy (META_ACCESS_TOKEN env) \<or> falsy (META_AD_ACCOUNT_ID env) \<or>
     falsy (TIKTOK_ACCESS_TOKEN env) \<or> falsy (TIKTOK_ADVERTISER_ID env))"
  then show "handler env ev =
        Some ([], Response 503 (ErrorMessage ''Service Unavailable: API credentials missing.''))"
    by (rule handler_unconfigured)
next
  assume run: "progressive (timeZone env) \<and>
    (httpMethod ev = Some ''GET'' \<or> eventMethod ev = Some ''GET'') \<and>
    truthy (META_ACCESS_TOKEN env) \<and> truthy (META_AD_ACCOUNT_ID env) \<and>
    truthy (TIKTOK_ACCESS_TOKEN env) \<and> truthy (TIKTOK_ADVERTISER_ID env)"
  then show "\<exists>rows. handler env ev =
         Some ([MetaInsights (startDateFormatted env ev) (endDateFormatted env)
                  (META_ACCESS_TOKEN env) (META_AD_ACCOUNT_ID env),
                TikTokReport (startDateFormatted env ev) (endDateFormatted env)
                  (TIKTOK_ACCESS_TOKEN env) (TIKTOK_ADVERTISER_ID env)],
               Response 200 (Rows rows))"
    by (intro handler_calls) simp_all
  from run show "\<forall>otherMeta. map ttColumns (tableRows (handler (env\<lparr>meta := otherMeta\<rparr>) ev)) =
         map ttColumns (tableRows (handler env ev))"
    by (intro allI columns_independent [THEN conjunct1]) simp_all
  from run show "\<forall>otherTikTok. map fbColumns (tableRows (handler (env\<lparr>tiktok := otherTikTok\<rparr>) ev)) =
         map fbColumns (tableRows (handler env ev))"
    by (intro allI columns_independent [THEN conjunct2]) simp_all
qed

text \<open>
  The claim as stated fails twice. For credentials that are present and invalid the request
  is sent and the adapter's promise rejects. And a platform left unconfigured does block the
  other: with the TikTok access token unset and Meta configured, the handler answers 503 and
  Meta is never asked.
\<close>

theorem adapter_guard_counterexample:
  "fetchFacebookData (\<lambda>request. FbNotOk ''Invalid OAuth access token.'') 19799 19888
       (Some ''expired-token'') (Some ''1234567890'') =
     ([MetaInsights 19799 19888 (Some ''expired-token'') (Some ''1234567890'')],
      Rejected ''Facebook API request failed: Invalid OAuth access token.'') \<and>
   TIKTOK_ACCESS_TOKEN tiktokUnconfiguredEnv = None \<and>
   truthy (META_ACCESS_TOKEN tiktokUnconfiguredEnv) \<and>
   truthy (META_AD_ACCOUNT_ID tiktokUnconfiguredEnv) \<and>
   handler tiktokUnconfiguredEnv (getRequest None) =
     Some ([], Response 503 (ErrorMessage ''Service Unavailable: API credentials missing.''))"
  by (simp add: fetchFacebookData_def falsy_def truthy_def handler_def tiktokUnconfiguredEnv_def
      partialEnv_def sampleEnv_def getRequest_def)

theorem adapter_guard_witness:
  "falsy None \<and>
   fetchFacebookData (\<lambda>request. FbNotOk ''Invalid OAuth access token.'') 19799 19888
       None (Some ''1234567890'') = ([], Fulfilled Map.empty) \<and>
   fetchTikTokData (\<lambda>request. TtNotOk ''Unauthorized'') 19799 19888
       None (Some ''1234567890'') = ([], Fulfilled Map.empty) \<and>
   truthy (Some ''expired-token'') \<and> truthy (Some ''1234567890'') \<and>
   fst (fetchFacebookData (\<lambda>request. FbNotOk ''Invalid OAuth access token.'') 19799 19888
       (Some ''expired-token'') (Some ''1234567890'')) =
     [MetaInsights 19799 19888 (Some ''expired-token'') (Some ''1234567890'')] \<and>
   fst (fetchTikTokData (\<lambda>request. TtNotOk ''Unauthorized'') 19799 19888
       (Some ''expired-token'') (Some ''1234567890'')) =
     [TikTokReport 19799 19888 (Some ''expired-token'') (Some ''1234567890'')] \<and>
   snd (fetchFacebookData (\<lambda>request. FbNotOk ''Invalid OAuth access token.'') 19799 19888
       (Some ''expired-token'') (Some ''1234567890'')) =
     Rejected ''Facebook API request failed: Invalid OAuth access token.'' \<and>
   snd (fetchTikTokData (\<lambda>request. TtNotOk ''Unauthorized'') 19799 19888
       (Some ''expired-token'') (Some ''1234567890'')) =
     Rejected ''TikTok API request failed: Unauthorized'' \<and>
   snd (fetchFacebookData (\<lambda>request. FbNotOkUnreadable ''Unexpected token < in JSON at position 0'')
       19799 19888 (Some ''expired-token'') (Some ''1234567890'')) =
     Rejected ''Unexpected token < in JSON at position 0'' \<and>
   snd (fetchTikTokData (\<lambda>request. TtNotOkUnreadable ''Unexpected token < in JSON at position 0'')
       19799 19888 (Some ''expired-token'') (Some ''1234567890'')) =
     Rejected ''Unexpected token < in JSON at position 0'' \<and>
   snd (fetchTikTokData (\<lambda>request. TtJson (Some 40105)
         (Some ''Access token is incorrect or has been revoked.'') (Some ''20240614233000011'') None)
       19799 19888 (Some ''expired-token'') (Some ''1234567890'')) =
     Rejected ''TikTok API error: Access token is incorrect or has been revoked. (Code: 40105, Request ID: 20240614233000011)'' \<and>
   falsy (TIKTOK_ACCESS_TOKEN tiktokUnconfiguredEnv) \<and>
   handler tiktokUnconfiguredEnv (getRequest None) =
     Some ([], Response 503 (ErrorMessage ''Service Unavailable: API credentials missing.'')) \<and>
   snd (fbPlatformDataResult metaRefusedEnv (getRequest None)) =
     Rejected ''Facebook API request failed: Invalid OAuth access token.'' \<and>
   (\<exists>rows. handler metaRefusedEnv (getRequest None) =
      Some ([MetaInsights 19799 19888 (Some ''meta-token'') (Some ''1234567890''),
             TikTokReport 19799 19888 (Some ''tiktok-token'') (Some ''7000000000000'')],
            Response 200 (Rows rows))) \<and>
   map ttColumns (tableRows (handler (metaRefusedEnv\<lparr>meta := \<lambda>request. FbJson None\<rparr>) (getRequest None))) =
     map ttColumns (tableRows (handler metaRefusedEnv (getRequest None))) \<and>
   ttColumns (hd (tableRows (handler metaRefusedEnv (getRequest None)))) =
     (19888, [Fin 50, Fin 1000, Fin 25, Fin 5, Fin 5, Fin 25, Fin (1 / 2), Fin 5, Fin 10])"
proof -
  let ?ev = "getRequest None"
  let ?fbNotOk = "\<lambda>request :: upstream_call. FbNotOk ''Invalid OAuth access token.''"
  let ?ttNotOk = "\<lambda>request :: upstream_call. TtNotOk ''Unauthorized''"
  let ?fbUnreadable = "\<lambda>request :: upstream_call. FbNotOkUnreadable ''Unexpected token < in JSON at position 0''"
  let ?ttUnreadable = "\<lambda>request :: upstream_call. TtNotOkUnreadable ''Unexpected token < in JSON at position 0''"
  let ?ttCode = "\<lambda>request :: upstream_call. TtJson (Some 40105)
         (Some ''Access token is incorrect or has been revoked.'') (Some ''20240614233000011'') None"
  let ?token = "Some ''expired-token''"
  let ?account = "Some ''1234567890''"
  have absent: "falsy None \<or> falsy ?account"
    by (simp add: falsy_def)
  note guard = adapter_guard [where accessToken = None and accountId = ?account and metaApi = ?fbNotOk
      and tiktokApi = ?ttNotOk and startDate = 19799 and endDate = 19888,
      THEN conjunct1, THEN mp, OF absent]
  have present: "truthy ?token \<and> truthy ?account"
    by (simp add: truthy_def)
  note sent = adapter_guard [where accessToken = ?token and accountId = ?account and metaApi = ?fbNotOk
      and tiktokApi = ?ttNotOk and startDate = 19799 and endDate = 19888,
      THEN conjunct2, THEN conjunct1, THEN mp, OF present]
  note calls = sent [THEN conjunct1]
  have fbRefused: "snd (fetchFacebookData ?fbNotOk 19799 19888 ?token ?account) =
      Rejected (''Facebook API request failed: '' @ ''Invalid OAuth access token.'')"
    by (rule sent [THEN conjunct2, THEN conjunct1, THEN conjunct1, THEN spec, THEN mp]) (rule refl)
  have ttRefused: "snd (fetchTikTokData ?ttNotOk 19799 19888 ?token ?account) =
      Rejected (''TikTok API request failed: '' @ ''Unauthorized'')"
    by (rule sent [THEN conjunct2, THEN conjunct2, THEN conjunct1, THEN spec, THEN mp]) (rule refl)
  note unreadable = adapter_guard [where accessToken = ?token and accountId = ?account
      and metaApi = ?fbUnreadable and tiktokApi = ?ttUnreadable and startDate = 19799
      and endDate = 19888, THEN conjunct2, THEN conjunct1, THEN mp, OF present, THEN conjunct2]
  have fbUnreadable: "snd (fetchFacebookData ?fbUnreadable 19799 19888 ?token ?account) =
      Rejected ''Unexpected token < in JSON at position 0''"
    by (rule unreadable [THEN conjunct1, THEN conjunct2, THEN spec, THEN mp]) (rule refl)
  have ttUnreadable: "snd (fetchTikTokData ?ttUnreadable 19799 19888 ?token ?account) =
      Rejected ''Unexpected token < in JSON at position 0''"
    by (rule unreadable [THEN conjunct2, THEN conjunct2, THEN conjunct1, THEN spec, THEN mp]) (rule refl)
  note coded = adapter_guard [where accessToken = ?token and accountId = ?account
      and tiktokApi = ?ttCode and startDate = 19799 and endDate = 19888,
      THEN conjunct2, THEN conjunct1, THEN mp, OF present, THEN conjunct2, THEN conjunct2,
      THEN conjunct2, THEN conjunct2, THEN spec, THEN spec, THEN spec, THEN spec, THEN mp]
  have "snd (fetchTikTokData ?ttCode 19799 19888 ?token ?account) =
      Rejected (''TikTok API error: '' @
        stringText (Some ''Access token is incorrect or has been revoked.'') @ '' (Code: '' @
        numberText (Some 40105) @ '', Request ID: '' @ stringText (Some ''20240614233000011'') @ '')'')"
    by (rule coded) simp
  then have ttCoded: "snd (fetchTikTokData ?ttCode 19799 19888 ?token ?account) =
      Rejected ''TikTok API error: Access token is incorrect or has been revoked. (Code: 40105, Request ID: 20240614233000011)''"
    by (simp add: stringText_def numberText_def showInt_def showNat.simps)
  have unset: "falsy (TIKTOK_ACCESS_TOKEN tiktokUnconfiguredEnv)"
    by (simp add: tiktokUnconfiguredEnv_def falsy_def)
  then have "(httpMethod ?ev = Some ''GET'' \<or> eventMethod ?ev = Some ''GET'') \<and>
      (falsy (META_ACCESS_TOKEN tiktokUnconfiguredEnv) \<or> falsy (META_AD_ACCOUNT_ID tiktokUnconfiguredEnv) \<or>
       falsy (TIKTOK_ACCESS_TOKEN tiktokUnconfiguredEnv) \<or> falsy (TIKTOK_ADVERTISER_ID tiktokUnconfiguredEnv))"
    by (simp add: getRequest_is_get)
  note blocked = adapter_guard [where env = tiktokUnconfiguredEnv and ev = ?ev,
      THEN conjunct2, THEN conjunct2, THEN conjunct1, THEN mp, OF this]
  note run = adapter_guard [where env = metaRefusedEnv and ev = ?ev,
      THEN conjunct2, THEN conjunct2, THEN conjunct2, THEN mp, OF metaRefusedEnv_ok]
  have both: "\<exists>rows. handler metaRefusedEnv ?ev =
      Some ([MetaInsights 19799 19888 (Some ''meta-token'') (Some ''1234567890''),
             TikTokReport 19799 19888 (Some ''tiktok-token'') (Some ''7000000000000'')],
            Response 200 (Rows rows))"
    using run [THEN conjunct1]
    by (simp add: metaRefusedEnv_dates) (simp add: metaRefusedEnv_def sampleEnv_def)
  note same = run [THEN conjunct2, THEN conjunct1, THEN spec, of "\<lambda>request. FbJson None"]
  from absent have "falsy None"
    by (simp add: falsy_def)
  then show ?thesis
    using guard present calls metaRefusedEnv_first_row
    by (simp only: fbRefused [simplified] ttRefused [simplified] fbUnreadable ttUnreadable
        ttCoded unset blocked both same simp_thms)
qed


end
